theory Spec2Isabelle
  imports
    Main
    "HOL-Library.Word"
    "HOL-Library.AList"
    "HOL-Library.Multiset"
    "HOL-Library.Char_ord"
    "HOL-Library.List_Lexorder"
begin

unbundle bit_operations_syntax

section \<open>Data model\<close>

text \<open>
  The builder package of fissile (\<^verbatim>\<open>src/unnamed/part_000\<close>). Go strings are byte
  sequences: \<^typ>\<open>string\<close>. The model package (Package, RoleJob, Role) is not part of
  the sources; the records hold the fields the builder reads.
\<close>

record Package =
  Name :: string
  Fingerprint :: string
  SHA1 :: string

record RoleJob =
  Packages :: "Package list"

record Role =
  RoleJobs :: "RoleJob list"

datatype error = Error string

record PackagesImageBuilder =
  repository :: string
  stemcellImageID :: string
  stemcellImageName :: string
  compiledPackagesPath :: string
  targetPath :: string
  fissileVersion :: string

text \<open>
  A Go map from fingerprints to packages is an association list with distinct keys:
  \<^const>\<open>AList.update\<close> is \<^verbatim>\<open>m[k] = v\<close> and \<^const>\<open>AList.delete\<close> is
  \<^verbatim>\<open>delete(m, k)\<close>. Go iterates a map in an unspecified order, see \<open>range_order\<close> below.
\<close>

type_synonym PackageMap = "(string \<times> Package) list"

subsection \<open>The tar stream\<close>

record Header =
  Header_Name :: string
  Header_Mode :: int
  Header_Size :: nat
  Header_Typeflag :: char
  Header_Linkname :: string

record tar_entry =
  entry_header :: Header
  entry_body :: string

text \<open>What a \<^verbatim>\<open>*tar.Writer\<close> has written so far: the entries, in order.\<close>

type_synonym tar_Writer = "tar_entry list"

record FileInfo =
  FileInfo_Mode :: "32 word"
  FileInfo_Size :: nat

subsection \<open>The collaborators that are not in the sources\<close>

text \<open>
  The docker image catalog (\<^verbatim>\<open>docker.NewImageManager\<close>, which may fail, and
  \<^verbatim>\<open>FindBestImageWithLabels\<close>, which answers with the matched image and the keys of
  the labels it found, or fails) is a parameter of the model.
\<close>

record docker =
  NewImageManager :: "error option"
  FindBestImageWithLabels ::
    "string \<Rightarrow> string list \<Rightarrow> string list \<Rightarrow> error + (string \<times> string list)"

text \<open>
  Everything else the builder calls and the sources do not define: the package variable
  \<^verbatim>\<open>baseImageOverride\<close>, the order in which \<^verbatim>\<open>range\<close> visits a map, the helpers of
  fissile's util, model and dockerfiles packages, \<^verbatim>\<open>html/template\<close>, the operating
  system's path functions and file system, \<^verbatim>\<open>tar.FileInfoHeader\<close>, and whether a
  write to the stream fails. \<open>filepath_Walk\<close> lists the calls \<^verbatim>\<open>filepath.Walk\<close> makes
  to its function for a root, as long as the function returns no error.
\<close>

record world =
  baseImageOverride :: string
  range_order :: "PackageMap \<Rightarrow> PackageMap"
  SanitizeDockerName :: "string \<Rightarrow> string"
  Asset :: "string \<Rightarrow> error + string"
  template_Parse :: "string \<Rightarrow> error + string"
  template_Execute :: "string \<Rightarrow> string \<times> Package list \<times> string \<Rightarrow> error + string"
  GetPackageCompiledDir :: "Package \<Rightarrow> string \<Rightarrow> string"
  filepath_Join :: "string list \<Rightarrow> string"
  filepath_Rel :: "string \<Rightarrow> string \<Rightarrow> error + string"
  filepath_Walk :: "string \<Rightarrow> (string \<times> FileInfo \<times> error option) list"
  FileInfoHeader :: "FileInfo \<Rightarrow> string \<Rightarrow> error + Header"
  os_Readlink :: "string \<Rightarrow> error + string"
  os_Open :: "string \<Rightarrow> error + string"
  WriteHeader_err :: "tar_Writer \<Rightarrow> Header \<Rightarrow> error option"
  Write_err :: "tar_Writer \<Rightarrow> string \<Rightarrow> error option"

section \<open>Collecting the packages of the roles\<close>

text \<open>
  Lines 179-192 of \<^verbatim>\<open>NewDockerPopulator\<close>: the three nested loops over roles, role
  jobs and packages, with the set \<^verbatim>\<open>foundFingerprints\<close> and the slice \<^verbatim>\<open>packages\<close>
  as the loop state.
\<close>

definition collect_step :: "Package \<Rightarrow> string set \<times> Package list \<Rightarrow> string set \<times> Package list" where
  "collect_step pkg st =
     (case st of (foundFingerprints, packages) \<Rightarrow>
        if Fingerprint pkg \<in> foundFingerprints then (foundFingerprints, packages)
        else (insert (Fingerprint pkg) foundFingerprints, packages @ [pkg]))"

definition collectPackages :: "Role list \<Rightarrow> Package list" where
  "collectPackages roles =
     snd (fold (\<lambda>role. fold (\<lambda>roleJob. fold collect_step (Packages roleJob)) (RoleJobs role))
            roles ({}, []))"

text \<open>The packages in the order the loops meet them: role by role, job by job.\<close>

definition allPackages :: "Role list \<Rightarrow> Package list" where
  "allPackages roles = concat (map (\<lambda>role. concat (map Packages (RoleJobs role))) roles)"

text \<open>The first occurrence of every fingerprint that is not in \<open>seen\<close>.\<close>

fun firstOccurrences :: "string set \<Rightarrow> Package list \<Rightarrow> Package list" where
  "firstOccurrences seen [] = []"
| "firstOccurrences seen (pkg # pkgs) =
     (if Fingerprint pkg \<in> seen then firstOccurrences seen pkgs
      else pkg # firstOccurrences (insert (Fingerprint pkg) seen) pkgs)"

section \<open>Strings\<close>

text \<open>\<^verbatim>\<open>strings.Split(s, sep)\<close> for a separator of one byte: the parts of \<open>s\<close> around
  every \<open>sep\<close>; a string without the separator is its own single part.\<close>

fun strings_Split :: "string \<Rightarrow> char \<Rightarrow> string list" where
  "strings_Split [] sep = [[]]"
| "strings_Split (c # cs) sep =
     (if c = sep then [] # strings_Split cs sep
      else (case strings_Split cs sep of
              [] \<Rightarrow> [[c]]
            | part # parts \<Rightarrow> (c # part) # parts))"

text \<open>\<^verbatim>\<open>strings.Join(elems, sep)\<close>.\<close>

fun strings_Join :: "string list \<Rightarrow> string \<Rightarrow> string" where
  "strings_Join [] sep = []"
| "strings_Join [e] sep = e"
| "strings_Join (e # es) sep = e @ sep @ strings_Join es sep"

text \<open>\<^verbatim>\<open>strings.Replace(s, old, new, -1)\<close> where \<open>old\<close> and \<open>new\<close> are one byte each.\<close>

definition strings_Replace :: "string \<Rightarrow> char \<Rightarrow> char \<Rightarrow> string" where
  "strings_Replace s old new = map (\<lambda>c. if c = old then new else c) s"

definition fissileVersionLabel :: "PackagesImageBuilder \<Rightarrow> string" where
  "fissileVersionLabel p =
     ''version.generator.fissile='' @ strings_Replace (fissileVersion p) (CHR ''+'') (CHR ''_'')"

section \<open>The base image of the packages layer\<close>

text \<open>The body of the loop over \<^verbatim>\<open>foundLabels\<close> (lines 153-160).\<close>

definition removeFound :: "string \<Rightarrow> PackageMap \<Rightarrow> PackageMap" where
  "removeFound label remainingPackages =
     (let parts = strings_Split label (CHR ''.'') in
      if length parts \<noteq> 2 \<or> parts ! 0 \<noteq> ''fingerprint'' then remainingPackages
      else AList.delete (parts ! 1) remainingPackages)"

definition determinePackagesLayerBaseImage ::
  "world \<Rightarrow> docker \<Rightarrow> PackagesImageBuilder \<Rightarrow> Package list \<Rightarrow> error + (string \<times> Package list)" where
  "determinePackagesLayerBaseImage w d p packages =
     (let baseImageName =
            (if baseImageOverride w \<noteq> [] then baseImageOverride w else stemcellImageName p);
          labels = map (\<lambda>pkg. ''fingerprint.'' @ Fingerprint pkg) packages;
          remainingPackages = fold (\<lambda>pkg. AList.update (Fingerprint pkg) pkg) packages [];
          mandatoryLabels = [fissileVersionLabel p]
      in case NewImageManager d of
           Some err \<Rightarrow> Inl err
         | None \<Rightarrow>
            (case FindBestImageWithLabels d baseImageName labels mandatoryLabels of
               Inl err \<Rightarrow> Inl err
             | Inr (matchedImage, foundLabels) \<Rightarrow>
                 Inr (matchedImage,
                      map snd (range_order w (fold removeFound foundLabels remainingPackages)))))"

text \<open>A label that the loop over the found labels does not skip (line 155).\<close>

definition isFingerprintLabel :: "string \<Rightarrow> bool" where
  "isFingerprintLabel label =
     (length (strings_Split label (CHR ''.'')) = 2 \<and> strings_Split label (CHR ''.'') ! 0 = ''fingerprint'')"

text \<open>The catalog \<open>d\<close> with every other label removed from what it finds.\<close>

definition onlyFingerprintLabels :: "docker \<Rightarrow> docker" where
  "onlyFingerprintLabels d =
     d\<lparr>FindBestImageWithLabels := (\<lambda>baseImageName labels mandatoryLabels.
          case FindBestImageWithLabels d baseImageName labels mandatoryLabels of
            Inl err \<Rightarrow> Inl err
          | Inr (matchedImage, foundLabels) \<Rightarrow> Inr (matchedImage, filter isFingerprintLabel foundLabels))\<rparr>"

section \<open>The Dockerfile\<close>

definition generateDockerfile ::
  "world \<Rightarrow> PackagesImageBuilder \<Rightarrow> string \<Rightarrow> Package list \<Rightarrow> error + string" where
  "generateDockerfile w p baseImage packages =
     (case Asset w ''Dockerfile-packages'' of
        Inl err \<Rightarrow> Inl err
      | Inr asset \<Rightarrow>
         (case template_Parse w asset of
            Inl err \<Rightarrow> Inl err
          | Inr dockerfileTemplate \<Rightarrow>
              template_Execute w dockerfileTemplate (baseImage, packages, fissileVersionLabel p)))"

section \<open>Writing to the tar stream\<close>

text \<open>\<^verbatim>\<open>(*tar.Writer).WriteHeader\<close> starts a new entry; \<^verbatim>\<open>Write\<close> adds bytes to the
  entry written last, and fails when no header has been written.\<close>

definition WriteHeader :: "world \<Rightarrow> tar_Writer \<Rightarrow> Header \<Rightarrow> error + tar_Writer" where
  "WriteHeader w stream header =
     (case WriteHeader_err w stream header of
        Some err \<Rightarrow> Inl err
      | None \<Rightarrow> Inr (stream @ [\<lparr>entry_header = header, entry_body = []\<rparr>]))"

definition Write :: "world \<Rightarrow> tar_Writer \<Rightarrow> string \<Rightarrow> error + tar_Writer" where
  "Write w stream data =
     (if stream = [] then Inl (Error ''archive/tar: write too long'')
      else case Write_err w stream data of
        Some err \<Rightarrow> Inl err
      | None \<Rightarrow>
          Inr (butlast stream @ [(last stream)\<lparr>entry_body := entry_body (last stream) @ data\<rparr>]))"

text \<open>
  Modelled from the spec: \<^verbatim>\<open>util.WriteToTarStream\<close>, which is not in the sources. The
  spec has the build script written as one entry under the given header, buffered
  first because "its size must be known before its header is emitted": the header
  gets the size of the data, then the data follows.
\<close>

definition WriteToTarStream :: "world \<Rightarrow> tar_Writer \<Rightarrow> string \<Rightarrow> Header \<Rightarrow> error + tar_Writer" where
  "WriteToTarStream w stream data header =
     (case WriteHeader w stream (header\<lparr>Header_Size := length data\<rparr>) of
        Inl err \<Rightarrow> Inl err
      | Inr stream' \<Rightarrow> Write w stream' data)"

text \<open>The zero value of \<^verbatim>\<open>tar.Header\<close>, and \<^verbatim>\<open>tar.TypeDir\<close>.\<close>

definition Header_zero :: Header where
  "Header_zero =
     \<lparr>Header_Name = [], Header_Mode = 0, Header_Size = 0, Header_Typeflag = CHR 0x00,
      Header_Linkname = []\<rparr>"

definition tar_TypeDir :: char where
  "tar_TypeDir = CHR ''5''"

section \<open>The tar walker\<close>

record tarWalker =
  root :: string
  prefix :: string

text \<open>\<^verbatim>\<open>os.ModeSymlink\<close>, \<^verbatim>\<open>os.ModeType\<close> and \<^verbatim>\<open>FileMode.IsRegular\<close>.\<close>

definition os_ModeSymlink :: "32 word" where
  "os_ModeSymlink = 0x8000000"

definition os_ModeType :: "32 word" where
  "os_ModeType = 0x8F280000"

definition IsRegular :: "32 word \<Rightarrow> bool" where
  "IsRegular m = (m AND os_ModeType = 0)"

text \<open>\<^verbatim>\<open>io.CopyN(dst, src, n)\<close> from a file with the bytes \<open>file\<close>: the first \<open>n\<close> bytes
  go to the stream; a file that ends before \<open>n\<close> bytes is copied whole and then the
  copy fails with EOF.\<close>

definition io_CopyN :: "world \<Rightarrow> tar_Writer \<Rightarrow> string \<Rightarrow> nat \<Rightarrow> error option \<times> tar_Writer" where
  "io_CopyN w stream file n =
     (case Write w stream (take n file) of
        Inl err \<Rightarrow> (Some err, stream)
      | Inr stream' \<Rightarrow> (if length file < n then (Some (Error ''EOF''), stream') else (None, stream')))"

text \<open>\<^verbatim>\<open>tarWalker.walk\<close> (lines 75-115); the stream is the state it changes.\<close>

definition walk ::
  "world \<Rightarrow> tarWalker \<Rightarrow> string \<Rightarrow> FileInfo \<Rightarrow> error option \<Rightarrow> tar_Writer
     \<Rightarrow> error option \<times> tar_Writer" where
  "walk w wk path info err stream =
     (case err of
        Some e \<Rightarrow> (Some e, stream)
      | None \<Rightarrow>
     (case FileInfoHeader w info [] of
        Inl e \<Rightarrow> (Some e, stream)
      | Inr header \<Rightarrow>
     (case (if FileInfo_Mode info AND os_ModeSymlink \<noteq> 0
            then (case os_Readlink w path of
                    Inl e \<Rightarrow> Inl e
                  | Inr linkname \<Rightarrow> Inr (header\<lparr>Header_Linkname := linkname\<rparr>))
            else Inr header) of
        Inl e \<Rightarrow> (Some e, stream)
      | Inr header \<Rightarrow>
     (case filepath_Rel w (root wk) path of
        Inl e \<Rightarrow> (Some e, stream)
      | Inr relPath \<Rightarrow>
     (case WriteHeader w stream (header\<lparr>Header_Name := filepath_Join w [prefix wk, relPath]\<rparr>) of
        Inl e \<Rightarrow> (Some e, stream)
      | Inr stream' \<Rightarrow>
          if \<not> IsRegular (FileInfo_Mode info) then (None, stream')
          else (case os_Open w path of
                  Inl e \<Rightarrow> (Some e, stream')
                | Inr file \<Rightarrow> io_CopyN w stream' file (FileInfo_Size info)))))))"

text \<open>\<^verbatim>\<open>filepath.Walk(root, walkFn)\<close>: the calls of \<open>filepath_Walk\<close> in turn, until one
  returns an error.\<close>

fun Walk_calls ::
  "(string \<Rightarrow> FileInfo \<Rightarrow> error option \<Rightarrow> tar_Writer \<Rightarrow> error option \<times> tar_Writer)
     \<Rightarrow> (string \<times> FileInfo \<times> error option) list \<Rightarrow> tar_Writer \<Rightarrow> error option \<times> tar_Writer" where
  "Walk_calls walkFn [] stream = (None, stream)"
| "Walk_calls walkFn ((path, info, err) # calls) stream =
     (case walkFn path info err stream of
        (Some e, stream') \<Rightarrow> (Some e, stream')
      | (None, stream') \<Rightarrow> Walk_calls walkFn calls stream')"

section \<open>The populator of the docker context\<close>

text \<open>The walker of one package (lines 225-229).\<close>

definition packageWalker :: "world \<Rightarrow> PackagesImageBuilder \<Rightarrow> Package \<Rightarrow> tarWalker" where
  "packageWalker w p pkg =
     \<lparr>root = GetPackageCompiledDir w pkg (compiledPackagesPath p),
      prefix = filepath_Join w [''packages-src'', Fingerprint pkg]\<rparr>"

text \<open>The loop that inserts the packages into the stream (lines 224-233).\<close>

fun insertPackages ::
  "world \<Rightarrow> PackagesImageBuilder \<Rightarrow> Package list \<Rightarrow> tar_Writer \<Rightarrow> error option \<times> tar_Writer" where
  "insertPackages w p [] tarWriter = (None, tarWriter)"
| "insertPackages w p (pkg # packages) tarWriter =
     (case Walk_calls (walk w (packageWalker w p pkg))
             (filepath_Walk w (root (packageWalker w p pkg))) tarWriter of
        (Some err, tarWriter') \<Rightarrow> (Some err, tarWriter')
      | (None, tarWriter') \<Rightarrow> insertPackages w p packages tarWriter')"

text \<open>Lines 203-235: the Dockerfile, the directory \<^verbatim>\<open>packages-src\<close> (of mode
  octal 755), the packages.\<close>

definition writeContext ::
  "world \<Rightarrow> PackagesImageBuilder \<Rightarrow> string \<Rightarrow> Package list \<Rightarrow> tar_Writer
     \<Rightarrow> error option \<times> tar_Writer" where
  "writeContext w p baseImageName packages tarWriter =
     (case generateDockerfile w p baseImageName packages of
        Inl err \<Rightarrow> (Some err, tarWriter)
      | Inr dockerfile \<Rightarrow>
     (case WriteToTarStream w tarWriter dockerfile (Header_zero\<lparr>Header_Name := ''Dockerfile''\<rparr>) of
        Inl err \<Rightarrow> (Some err, tarWriter)
      | Inr tarWriter1 \<Rightarrow>
     (case WriteToTarStream w tarWriter1 []
             (Header_zero\<lparr>Header_Name := ''packages-src'', Header_Mode := 7 * 64 + 5 * 8 + 5,
                Header_Typeflag := tar_TypeDir\<rparr>) of
        Inl err \<Rightarrow> (Some err, tarWriter1)
      | Inr tarWriter2 \<Rightarrow> insertPackages w p packages tarWriter2)))"

text \<open>
  The function \<^verbatim>\<open>NewDockerPopulator\<close> returns, applied to a tar writer: the error it
  returns (\<open>None\<close> for \<^verbatim>\<open>nil\<close>) and what the stream holds afterwards.
\<close>

definition NewDockerPopulator ::
  "world \<Rightarrow> docker \<Rightarrow> PackagesImageBuilder \<Rightarrow> Role list \<Rightarrow> bool \<Rightarrow> tar_Writer
     \<Rightarrow> error option \<times> tar_Writer" where
  "NewDockerPopulator w d p roles forceBuildAll tarWriter =
     (if length roles = 0 then (Some (Error ''No roles to build''), tarWriter)
      else
        let packages = collectPackages roles in
        if \<not> forceBuildAll then
          (case determinePackagesLayerBaseImage w d p packages of
             Inl err \<Rightarrow> (Some err, tarWriter)
           | Inr (baseImageName, packages') \<Rightarrow> writeContext w p baseImageName packages' tarWriter)
        else writeContext w p (stemcellImageName p) packages tarWriter)"

section \<open>The name of the packages layer image\<close>

text \<open>
  \<^verbatim>\<open>crypto/sha1\<close> of the Go library: SHA-1 as FIPS 180-4 defines it, on 32-bit words.
  The message is padded to whole blocks of 64 bytes, each block is expanded to a
  schedule of 80 words and run through 80 rounds in four groups of 20.
\<close>

definition rotl :: "nat \<Rightarrow> 32 word \<Rightarrow> 32 word" where
  "rotl n x = push_bit n x OR drop_bit (32 - n) x"

definition sha1_pad :: "string \<Rightarrow> 8 word list" where
  "sha1_pad msg =
     map (\<lambda>c. of_nat (of_char c)) msg @ [0x80]
       @ replicate ((119 - length msg mod 64) mod 64) 0
       @ map (\<lambda>k. of_nat ((8 * length msg) div 2 ^ k)) [56, 48, 40, 32, 24, 16, 8, 0]"

fun be32 :: "8 word list \<Rightarrow> 32 word list" where
  "be32 (a # b # c # d # bs) =
     (push_bit 24 (ucast a) OR push_bit 16 (ucast b) OR push_bit 8 (ucast c) OR ucast d) # be32 bs"
| "be32 bs = []"

text \<open>The schedule, last word first: \<open>n\<close> more words are added to \<open>rs\<close>, then it is
  put in order.\<close>

fun sha1_schedule :: "nat \<Rightarrow> 32 word list \<Rightarrow> 32 word list" where
  "sha1_schedule 0 rs = rev rs"
| "sha1_schedule (Suc n) rs =
     sha1_schedule n (rotl 1 (rs ! 2 XOR rs ! 7 XOR rs ! 13 XOR rs ! 15) # rs)"

type_synonym sha1_state = "32 word \<times> 32 word \<times> 32 word \<times> 32 word \<times> 32 word"

fun sha1_rounds ::
  "(32 word \<Rightarrow> 32 word \<Rightarrow> 32 word \<Rightarrow> 32 word) \<Rightarrow> 32 word \<Rightarrow> 32 word list \<Rightarrow> sha1_state \<Rightarrow> sha1_state" where
  "sha1_rounds f k [] s = s"
| "sha1_rounds f k (x # xs) (a, b, c, d, e) =
     sha1_rounds f k xs (rotl 5 a + f b c d + e + k + x, a, rotl 30 b, c, d)"

definition sha1_Ch :: "32 word \<Rightarrow> 32 word \<Rightarrow> 32 word \<Rightarrow> 32 word" where
  "sha1_Ch b c d = (b AND c) OR (NOT b AND d)"

definition sha1_Parity :: "32 word \<Rightarrow> 32 word \<Rightarrow> 32 word \<Rightarrow> 32 word" where
  "sha1_Parity b c d = b XOR c XOR d"

definition sha1_Maj :: "32 word \<Rightarrow> 32 word \<Rightarrow> 32 word \<Rightarrow> 32 word" where
  "sha1_Maj b c d = (b AND c) OR (b AND d) OR (c AND d)"

fun sha1_add :: "sha1_state \<Rightarrow> sha1_state \<Rightarrow> sha1_state" where
  "sha1_add (h0, h1, h2, h3, h4) (a, b, c, d, e) = (h0 + a, h1 + b, h2 + c, h3 + d, h4 + e)"

definition sha1_compress :: "sha1_state \<Rightarrow> 32 word list \<Rightarrow> sha1_state" where
  "sha1_compress h ws =
     sha1_add h
       (sha1_rounds sha1_Parity 0xCA62C1D6 (drop 60 ws)
         (sha1_rounds sha1_Maj 0x8F1BBCDC (take 20 (drop 40 ws))
           (sha1_rounds sha1_Parity 0x6ED9EBA1 (take 20 (drop 20 ws))
             (sha1_rounds sha1_Ch 0x5A827999 (take 20 ws) h))))"

definition sha1_block :: "sha1_state \<Rightarrow> 32 word list \<Rightarrow> sha1_state" where
  "sha1_block h blk = sha1_compress h (sha1_schedule 64 (rev blk))"

function sha1_blocks :: "sha1_state \<Rightarrow> 32 word list \<Rightarrow> sha1_state" where
  "sha1_blocks h ws = (if ws = [] then h else sha1_blocks (sha1_block h (take 16 ws)) (drop 16 ws))"
  by pat_completeness auto
termination
  by (relation "measure (\<lambda>(h, ws). length ws)") auto

fun sha1_bytes :: "sha1_state \<Rightarrow> 8 word list" where
  "sha1_bytes (a, b, c, d, e) =
     concat (map (\<lambda>x. map (\<lambda>k. ucast (drop_bit k x)) [24, 16, 8, 0]) [a, b, c, d, e])"

definition sha1_Sum :: "string \<Rightarrow> 8 word list" where
  "sha1_Sum msg =
     sha1_bytes (sha1_blocks (0x67452301, 0xEFCDAB89, 0x98BADCFE, 0x10325476, 0xC3D2E1F0)
                   (be32 (sha1_pad msg)))"

text \<open>\<^verbatim>\<open>hex.EncodeToString\<close>: two lower-case digits for every byte.\<close>

definition hex_EncodeToString :: "8 word list \<Rightarrow> string" where
  "hex_EncodeToString bs =
     concat (map (\<lambda>b. [''0123456789abcdef'' ! (unat b div 16), ''0123456789abcdef'' ! (unat b mod 16)]) bs)"

text \<open>
  Modelled from the spec: the order \<^verbatim>\<open>sort.Sort\<close> puts a \<^verbatim>\<open>model.Packages\<close> in
  (its \<^verbatim>\<open>Len\<close>, \<^verbatim>\<open>Less\<close> and \<^verbatim>\<open>Swap\<close> are not in the sources). The spec
  sorts the packages "by a total order over fingerprints"; Go compares strings byte by
  byte, as the order on \<^typ>\<open>string\<close> does.
\<close>

definition Packages_Sort :: "Package list \<Rightarrow> Package list" where
  "Packages_Sort pkgs = sort_key Fingerprint pkgs"

text \<open>Lines 263-270: the map \<^verbatim>\<open>pkgMap\<close> after the loops over roles, jobs and packages.\<close>

definition pkgMap :: "Role list \<Rightarrow> PackageMap" where
  "pkgMap roles =
     fold (\<lambda>r. fold (\<lambda>j. fold (\<lambda>pkg. AList.update (Fingerprint pkg) pkg) (Packages j)) (RoleJobs r))
       roles []"

text \<open>Lines 273-277: the packages of the map, in the order of its iteration, sorted.\<close>

definition sortedPackages :: "world \<Rightarrow> Role list \<Rightarrow> Package list" where
  "sortedPackages w roles = Packages_Sort (map snd (range_order w (pkgMap roles)))"

text \<open>Lines 280-284: the bytes written to the hasher.\<close>

definition hashInput :: "PackagesImageBuilder \<Rightarrow> Package list \<Rightarrow> string" where
  "hashInput p pkgs =
     (fissileVersion p @ '':'' @ stemcellImageID p)
       @ concat (map (\<lambda>pkg. strings_Join [[], Fingerprint pkg, Name pkg, SHA1 pkg] [CHR 0x00]) pkgs)"

text \<open>
  \<^verbatim>\<open>GetPackagesLayerImageName\<close> (lines 261-289). It does not read its role manifest
  and its error is always \<^verbatim>\<open>nil\<close>: the model returns the name.
\<close>

definition GetPackagesLayerImageName :: "world \<Rightarrow> PackagesImageBuilder \<Rightarrow> Role list \<Rightarrow> string" where
  "GetPackagesLayerImageName w p roles =
     SanitizeDockerName w (repository p @ ''-role-packages'') @ '':''
       @ SanitizeDockerName w (hex_EncodeToString (sha1_Sum (hashInput p (sortedPackages w roles))))"

section \<open>Sample inputs\<close>

definition rolesA :: "Role list" where
  "rolesA =
     [\<lparr>RoleJobs = [\<lparr>Packages = [\<lparr>Name = ''p1'', Fingerprint = ''f1'', SHA1 = ''h1''\<rparr>]\<rparr>]\<rparr>,
      \<lparr>RoleJobs = [\<lparr>Packages = [\<lparr>Name = ''p1'', Fingerprint = ''f1'', SHA1 = ''h2''\<rparr>]\<rparr>]\<rparr>]"

definition worldA :: world where
  "worldA =
     \<lparr>baseImageOverride = [],
      range_order = rev,
      SanitizeDockerName = (\<lambda>s. s),
      Asset = (\<lambda>name. Inr ''FROM {{ .base_image }}''),
      template_Parse = Inr,
      template_Execute = (\<lambda>tmpl (baseImage, packages, label). Inr (''FROM '' @ baseImage)),
      GetPackageCompiledDir = (\<lambda>pkg path. path @ ''/'' @ Fingerprint pkg),
      filepath_Join = (\<lambda>elems. strings_Join elems ''/''),
      filepath_Rel = (\<lambda>basepath targpath. Inr (drop (Suc (length basepath)) targpath)),
      filepath_Walk = (\<lambda>dir. [(dir @ ''/run'', \<lparr>FileInfo_Mode = 0x1ED, FileInfo_Size = 2\<rparr>, None)]),
      FileInfoHeader = (\<lambda>info link. Inr (Header_zero\<lparr>Header_Mode := 7 * 64 + 5 * 8 + 5,
         Header_Size := FileInfo_Size info, Header_Typeflag := CHR ''0''\<rparr>)),
      os_Readlink = (\<lambda>path. Inl (Error ''invalid argument'')),
      os_Open = (\<lambda>path. Inr ''#!''),
      WriteHeader_err = (\<lambda>stream header. None),
      Write_err = (\<lambda>stream data. None)\<rparr>"

definition dockerA :: docker where
  "dockerA =
     \<lparr>NewImageManager = None,
      FindBestImageWithLabels = (\<lambda>baseImageName labels mandatoryLabels. Inr (baseImageName, []))\<rparr>"

definition builderA :: PackagesImageBuilder where
  "builderA =
     \<lparr>repository = ''acme'', stemcellImageID = ''sha:abc'', stemcellImageName = ''stemcell'',
      compiledPackagesPath = ''/c'', targetPath = ''/t'', fissileVersion = ''1.2.3''\<rparr>"

definition dockerB :: docker where
  "dockerB =
     \<lparr>NewImageManager = Some (Error ''cannot connect to docker''),
      FindBestImageWithLabels = (\<lambda>baseImageName labels mandatoryLabels. Inr (''other-image'', labels))\<rparr>"

definition dockerC :: docker where
  "dockerC =
     \<lparr>NewImageManager = None,
      FindBestImageWithLabels = (\<lambda>baseImageName labels mandatoryLabels.
         Inr (''other-image'', ''version.generator.fissile=1.2.3'' # labels))\<rparr>"

definition dockerD :: docker where
  "dockerD =
     \<lparr>NewImageManager = None,
      FindBestImageWithLabels = (\<lambda>baseImageName labels mandatoryLabels.
         Inr (''other-image'', [''version.generator.fissile=1.2.3'', ''fingerprint.f1'']))\<rparr>"

definition pkgDot :: Package where
  "pkgDot = \<lparr>Name = ''p'', Fingerprint = ''a.b'', SHA1 = ''h''\<rparr>"

definition worldB :: world where
  "worldB = worldA\<lparr>range_order := (\<lambda>m. m)\<rparr>"

definition rolesH1 :: "Role list" where
  "rolesH1 = [\<lparr>RoleJobs = [\<lparr>Packages = [\<lparr>Name = ''p1'', Fingerprint = ''f1'', SHA1 = ''h1''\<rparr>]\<rparr>]\<rparr>]"

definition rolesH2 :: "Role list" where
  "rolesH2 = [\<lparr>RoleJobs = [\<lparr>Packages = [\<lparr>Name = ''p1'', Fingerprint = ''f1'', SHA1 = ''h2''\<rparr>]\<rparr>]\<rparr>]"

definition rolesC :: "Role list" where
  "rolesC =
     [\<lparr>RoleJobs = [\<lparr>Packages = [\<lparr>Name = ''p1'', Fingerprint = ''f1'', SHA1 = ''h1''\<rparr>,
                                 \<lparr>Name = ''p2'', Fingerprint = ''f2'', SHA1 = ''h2''\<rparr>]\<rparr>]\<rparr>,
      \<lparr>RoleJobs = [\<lparr>Packages = [\<lparr>Name = ''p1'', Fingerprint = ''f1'', SHA1 = ''h1''\<rparr>]\<rparr>]\<rparr>]"

definition rolesC' :: "Role list" where
  "rolesC' =
     [\<lparr>RoleJobs = [\<lparr>Packages = [\<lparr>Name = ''p2'', Fingerprint = ''f2'', SHA1 = ''h2''\<rparr>]\<rparr>]\<rparr>,
      \<lparr>RoleJobs = [\<lparr>Packages = [\<lparr>Name = ''p1'', Fingerprint = ''f1'', SHA1 = ''h1''\<rparr>]\<rparr>,
                   \<lparr>Packages = [\<lparr>Name = ''p1'', Fingerprint = ''f1'', SHA1 = ''h1''\<rparr>]\<rparr>]\<rparr>]"

section \<open>Theorems\<close>

subsection \<open>Deduplication by first occurrence\<close>

lemma fold_fold_concat:
  "fold (\<lambda>x. fold f (g x)) xs st = fold f (concat (map g xs)) st"
  by (induction xs arbitrary: st) simp_all

lemma fold_collect_step:
  "fold collect_step pkgs (seen, acc) =
     (seen \<union> Fingerprint ` set pkgs, acc @ firstOccurrences seen pkgs)"
  by (induction pkgs arbitrary: seen acc) (auto simp: collect_step_def)

lemma collectPackages_firstOccurrences:
  "collectPackages roles = firstOccurrences {} (allPackages roles)"
proof -
  have jobs: "fold (\<lambda>roleJob. fold collect_step (Packages roleJob)) js st
        = fold collect_step (concat (map Packages js)) st" for js st
    by (rule fold_fold_concat)
  have "fold (\<lambda>role. fold (\<lambda>roleJob. fold collect_step (Packages roleJob)) (RoleJobs role)) roles st
        = fold collect_step (allPackages roles) st" for st
    by (induction roles arbitrary: st) (simp_all add: allPackages_def jobs)
  then show ?thesis
    by (simp add: collectPackages_def fold_collect_step)
qed

lemma firstOccurrences_set:
  "set (firstOccurrences seen pkgs) \<subseteq> set pkgs"
  by (induction pkgs arbitrary: seen) auto

lemma firstOccurrences_fingerprints:
  "Fingerprint ` set (firstOccurrences seen pkgs) = Fingerprint ` set pkgs - seen"
  by (induction pkgs arbitrary: seen) auto

lemma firstOccurrences_distinct:
  "distinct (map Fingerprint (firstOccurrences seen pkgs))"
proof (induction pkgs arbitrary: seen)
  case Nil
  show ?case by simp
next
  case (Cons pkg pkgs)
  have "Fingerprint pkg \<notin> Fingerprint ` set (firstOccurrences (insert (Fingerprint pkg) seen) pkgs)"
    by (simp add: firstOccurrences_fingerprints)
  with Cons show ?case by simp
qed

lemma firstOccurrences_filter_seen:
  "fp \<in> seen \<Longrightarrow> filter (\<lambda>q. Fingerprint q = fp) (firstOccurrences seen pkgs) = []"
  by (induction pkgs arbitrary: seen) auto

lemma firstOccurrences_filter:
  "fp \<notin> seen \<Longrightarrow> find (\<lambda>q. Fingerprint q = fp) pkgs = Some pkg \<Longrightarrow>
   filter (\<lambda>q. Fingerprint q = fp) (firstOccurrences seen pkgs) = [pkg]"
proof (induction pkgs arbitrary: seen)
  case Nil
  then show ?case by simp
next
  case (Cons a pkgs)
  show ?case
  proof (cases "Fingerprint a = fp")
    case True
    with Cons.prems show ?thesis
      by (simp add: firstOccurrences_filter_seen)
  next
    case False
    with Cons show ?thesis by auto
  qed
qed

text \<open>
  C5. The packages \<^verbatim>\<open>NewDockerPopulator\<close> resolves from the roles hold every
  fingerprint at most once, and a fingerprint that some role or job refers to exactly
  once: by the first package with that fingerprint in the order roles, jobs and
  packages are iterated.
\<close>

theorem collectPackages_first_occurrence:
  "distinct (map Fingerprint (collectPackages roles)) \<and>
   (\<forall>fp pkg. find (\<lambda>q. Fingerprint q = fp) (allPackages roles) = Some pkg \<longrightarrow>
      filter (\<lambda>q. Fingerprint q = fp) (collectPackages roles) = [pkg])"
  by (simp add: collectPackages_firstOccurrences firstOccurrences_distinct firstOccurrences_filter)

theorem collectPackages_first_occurrence_witness:
  "find (\<lambda>q. Fingerprint q = ''f1'') (allPackages rolesA)
     = Some \<lparr>Name = ''p1'', Fingerprint = ''f1'', SHA1 = ''h1''\<rparr> \<and>
   filter (\<lambda>q. Fingerprint q = ''f1'') (collectPackages rolesA)
     = [\<lparr>Name = ''p1'', Fingerprint = ''f1'', SHA1 = ''h1''\<rparr>]"
proof -
  have h: "find (\<lambda>q. Fingerprint q = ''f1'') (allPackages rolesA)
     = Some \<lparr>Name = ''p1'', Fingerprint = ''f1'', SHA1 = ''h1''\<rparr>"
    by (simp add: allPackages_def rolesA_def)
  from collectPackages_first_occurrence [of rolesA] h show ?thesis
    by blast
qed

subsection \<open>The docker context\<close>

lemma Write_last:
  "Write w (stream @ [e]) data = Inr stream' \<Longrightarrow>
   stream' = stream @ [e\<lparr>entry_body := entry_body e @ data\<rparr>]"
  by (auto simp: Write_def split: option.splits)

lemma WriteToTarStream_Inr:
  "WriteToTarStream w stream data header = Inr stream' \<Longrightarrow>
   stream' = stream @ [\<lparr>entry_header = header\<lparr>Header_Size := length data\<rparr>, entry_body = data\<rparr>]"
  by (auto simp: WriteToTarStream_def WriteHeader_def Write_def split: option.splits sum.splits)

lemma io_CopyN_extends:
  "\<exists>body. snd (io_CopyN w (stream @ [e]) file n) = stream @ [e\<lparr>entry_body := body\<rparr>]"
  apply (auto simp: io_CopyN_def  Write_def split: option.splits sum.splits)
  apply (rule exI[of _ "entry_body e"], simp)+
  done

lemma walk_extends: "\<exists>rest. snd (walk w wk path info err stream) = stream @ rest"
proof -
  have c: "\<exists>rest. snd (io_CopyN w (stream @ [e]) f n) = stream @ rest" for e f n
    using io_CopyN_extends [of w stream e f n] by auto
  show ?thesis
    unfolding walk_def
    by (auto simp: WriteHeader_def c split: option.splits sum.splits)
qed

lemma Walk_calls_extends: "\<exists>rest. snd (Walk_calls (walk w wk) calls stream) = stream @ rest"
proof (induction calls arbitrary: stream)
  case Nil
  show ?case by simp
next
  case (Cons c calls)
  obtain path info err where c: "c = (path, info, err)" by (cases c) auto
  obtain r s1 where w1: "walk w wk path info err stream = (r, s1)" by (cases "walk w wk path info err stream") auto
  from walk_extends [of w wk path info err stream] w1 obtain rest1 where s1: "s1 = stream @ rest1" by auto
  show ?case
  proof (cases r)
    case None
    from Cons.IH [of s1] obtain rest2 where "snd (Walk_calls (walk w wk) calls s1) = s1 @ rest2" by auto
    with None c w1 s1 show ?thesis by simp
  next
    case (Some e)
    with c w1 s1 show ?thesis by simp
  qed
qed

lemma insertPackages_extends: "\<exists>rest. snd (insertPackages w p packages stream) = stream @ rest"
proof (induction packages arbitrary: stream)
  case Nil
  show ?case by simp
next
  case (Cons pkg packages)
  let ?r = "Walk_calls (walk w (packageWalker w p pkg)) (filepath_Walk w (root (packageWalker w p pkg))) stream"
  obtain r s1 where w1: "?r = (r, s1)" by (cases ?r) auto
  from Walk_calls_extends [of w "packageWalker w p pkg" _ stream] w1 obtain rest1 where s1: "s1 = stream @ rest1"
    by (metis snd_conv)
  show ?case
  proof (cases r)
    case None
    from Cons.IH [of s1] obtain rest2 where "snd (insertPackages w p packages s1) = s1 @ rest2" by auto
    with None w1 s1 show ?thesis by simp
  next
    case (Some e)
    with w1 s1 show ?thesis by simp
  qed
qed

lemma writeContext_success:
  assumes "writeContext w p baseImageName packages tarWriter = (None, tarWriter')"
  shows "\<exists>dockerfile rest.
     generateDockerfile w p baseImageName packages = Inr dockerfile \<and>
     tarWriter' = tarWriter @
        [\<lparr>entry_header = Header_zero\<lparr>Header_Name := ''Dockerfile'', Header_Size := length dockerfile\<rparr>,
           entry_body = dockerfile\<rparr>,
         \<lparr>entry_header = Header_zero\<lparr>Header_Name := ''packages-src'', Header_Mode := 7 * 64 + 5 * 8 + 5,
             Header_Typeflag := tar_TypeDir, Header_Size := 0\<rparr>,
           entry_body = []\<rparr>] @ rest \<and>
     (packages = [] \<longrightarrow> rest = [])"
proof -
  from assms obtain dockerfile where g: "generateDockerfile w p baseImageName packages = Inr dockerfile"
    by (auto simp: writeContext_def split: sum.splits)
  from assms g obtain t1 where t1: "WriteToTarStream w tarWriter dockerfile (Header_zero\<lparr>Header_Name := ''Dockerfile''\<rparr>) = Inr t1"
    by (auto simp: writeContext_def split: sum.splits)
  from assms g t1 obtain t2 where t2: "WriteToTarStream w t1 []
             (Header_zero\<lparr>Header_Name := ''packages-src'', Header_Mode := 7 * 64 + 5 * 8 + 5,
                Header_Typeflag := tar_TypeDir\<rparr>) = Inr t2"
    by (auto simp: writeContext_def split: sum.splits)
  from assms g t1 t2 have ins: "insertPackages w p packages t2 = (None, tarWriter')"
    by (simp add: writeContext_def)
  from insertPackages_extends [of w p packages t2] ins obtain rest where r: "tarWriter' = t2 @ rest"
    by auto
  from ins r have "packages = [] \<longrightarrow> rest = []" by auto
  with g r WriteToTarStream_Inr [OF t1] WriteToTarStream_Inr [OF t2] show ?thesis
    by simp
qed

text \<open>
  C7. Applied to an empty list of roles, the populator returns the error
  "No roles to build" and leaves the tar stream as it was.
\<close>

theorem NewDockerPopulator_no_roles:
  "NewDockerPopulator w d p [] forceBuildAll tarWriter = (Some (Error ''No roles to build''), tarWriter)"
  by (simp add: NewDockerPopulator_def)

text \<open>
  C4. With \<^verbatim>\<open>forceBuildAll\<close> and at least one role, the populator writes the context
  for the unmodified stemcell image name and all packages collected from the roles; the
  docker catalog is not consulted, so the outcome is the same for every catalog.
\<close>

theorem NewDockerPopulator_forceBuildAll:
  assumes "roles \<noteq> []"
  shows "NewDockerPopulator w d p roles True tarWriter
           = writeContext w p (stemcellImageName p) (collectPackages roles) tarWriter \<and>
         NewDockerPopulator w d' p roles True tarWriter = NewDockerPopulator w d p roles True tarWriter"
  using assms by (simp add: NewDockerPopulator_def)

lemma collect_rolesA: "collectPackages rolesA = [\<lparr>Name = ''p1'', Fingerprint = ''f1'', SHA1 = ''h1''\<rparr>]"
  by (simp add: collectPackages_def rolesA_def collect_step_def)

lemma generate_A: "generateDockerfile worldA builderA b pkgs = Inr (''FROM '' @ b)"
  by (simp add: generateDockerfile_def worldA_def)

lemma insert_A: "insertPackages worldA builderA [\<lparr>Name = ''p1'', Fingerprint = ''f1'', SHA1 = ''h1''\<rparr>] s
   = (None, s @ [\<lparr>entry_header = \<lparr>Header_Name = ''packages-src/f1/run'', Header_Mode = 493, Header_Size = 2,
        Header_Typeflag = CHR ''0'', Header_Linkname = []\<rparr>, entry_body = ''#!''\<rparr>])"
  by (simp add: packageWalker_def worldA_def builderA_def walk_def os_ModeSymlink_def
      IsRegular_def os_ModeType_def WriteHeader_def io_CopyN_def Write_def Header_zero_def butlast_append)

lemma writeContext_A: "writeContext worldA builderA ''stemcell'' [\<lparr>Name = ''p1'', Fingerprint = ''f1'', SHA1 = ''h1''\<rparr>] [] 
  = (None, [\<lparr>entry_header = \<lparr>Header_Name = ''Dockerfile'', Header_Mode = 0, Header_Size = 13,
        Header_Typeflag = CHR 0x00, Header_Linkname = []\<rparr>, entry_body = ''FROM stemcell''\<rparr>,
     \<lparr>entry_header = \<lparr>Header_Name = ''packages-src'', Header_Mode = 493, Header_Size = 0,
        Header_Typeflag = CHR ''5'', Header_Linkname = []\<rparr>, entry_body = []\<rparr>,
      \<lparr>entry_header = \<lparr>Header_Name = ''packages-src/f1/run'', Header_Mode = 493, Header_Size = 2,
        Header_Typeflag = CHR ''0'', Header_Linkname = []\<rparr>, entry_body = ''#!''\<rparr>])"
proof -
  have w1: "WriteToTarStream worldA [] ''FROM stemcell'' (Header_zero\<lparr>Header_Name := ''Dockerfile''\<rparr>)
     = Inr [\<lparr>entry_header = \<lparr>Header_Name = ''Dockerfile'', Header_Mode = 0, Header_Size = 13,
        Header_Typeflag = CHR 0x00, Header_Linkname = []\<rparr>, entry_body = ''FROM stemcell''\<rparr>]"
    by (simp add: WriteToTarStream_def WriteHeader_def Write_def worldA_def Header_zero_def)
  have w2: "WriteToTarStream worldA [e] [] (Header_zero\<lparr>Header_Name := ''packages-src'', Header_Mode := 493,
                Header_Typeflag := tar_TypeDir\<rparr>)
     = Inr [e, \<lparr>entry_header = \<lparr>Header_Name = ''packages-src'', Header_Mode = 493, Header_Size = 0,
        Header_Typeflag = CHR ''5'', Header_Linkname = []\<rparr>, entry_body = []\<rparr>]" for e
    by (simp add: WriteToTarStream_def WriteHeader_def Write_def worldA_def Header_zero_def tar_TypeDir_def)
  show ?thesis
    by (simp add: writeContext_def generate_A w1 w2 insert_A del: insertPackages.simps)
qed

text \<open>The forced build succeeds the same way when no docker connection can be made.\<close>

theorem NewDockerPopulator_forceBuildAll_witness:
  "rolesA \<noteq> [] \<and>
   NewDockerPopulator worldA dockerB builderA rolesA True []
     = (None,
        [\<lparr>entry_header = \<lparr>Header_Name = ''Dockerfile'', Header_Mode = 0, Header_Size = 13,
            Header_Typeflag = CHR 0x00, Header_Linkname = []\<rparr>, entry_body = ''FROM stemcell''\<rparr>,
         \<lparr>entry_header = \<lparr>Header_Name = ''packages-src'', Header_Mode = 493, Header_Size = 0,
            Header_Typeflag = CHR ''5'', Header_Linkname = []\<rparr>, entry_body = []\<rparr>,
         \<lparr>entry_header = \<lparr>Header_Name = ''packages-src/f1/run'', Header_Mode = 493, Header_Size = 2,
            Header_Typeflag = CHR ''0'', Header_Linkname = []\<rparr>, entry_body = ''#!''\<rparr>]) \<and>
   NewDockerPopulator worldA dockerC builderA rolesA True []
     = NewDockerPopulator worldA dockerB builderA rolesA True []"
proof -
  have h: "rolesA \<noteq> []" by (simp add: rolesA_def)
  have s: "stemcellImageName builderA = ''stemcell''" by (simp add: builderA_def)
  from NewDockerPopulator_forceBuildAll [OF h, of worldA dockerB builderA "[]" dockerC] h
  show ?thesis by (simp add: collect_rolesA s writeContext_A)
qed

text \<open>
  C6. When the populator returns without error, it has appended to the stream the
  rendered Dockerfile as the entry \<^verbatim>\<open>Dockerfile\<close>, then the directory entry
  \<^verbatim>\<open>packages-src\<close>, then the files of the packages; with no package left to insert
  these two entries are all it wrote.
\<close>

theorem NewDockerPopulator_context_entries:
  assumes "NewDockerPopulator w d p roles forceBuildAll tarWriter = (None, tarWriter')"
  shows "\<exists>baseImageName packages dockerfile rest.
     (if forceBuildAll
      then baseImageName = stemcellImageName p \<and> packages = collectPackages roles
      else determinePackagesLayerBaseImage w d p (collectPackages roles) = Inr (baseImageName, packages)) \<and>
     generateDockerfile w p baseImageName packages = Inr dockerfile \<and>
     tarWriter' = tarWriter @
        [\<lparr>entry_header = Header_zero\<lparr>Header_Name := ''Dockerfile'', Header_Size := length dockerfile\<rparr>,
           entry_body = dockerfile\<rparr>,
         \<lparr>entry_header = Header_zero\<lparr>Header_Name := ''packages-src'', Header_Mode := 7 * 64 + 5 * 8 + 5,
             Header_Typeflag := tar_TypeDir, Header_Size := 0\<rparr>,
           entry_body = []\<rparr>] @ rest \<and>
     (packages = [] \<longrightarrow> rest = [])"
proof (cases forceBuildAll)
  case True
  with assms have "writeContext w p (stemcellImageName p) (collectPackages roles) tarWriter = (None, tarWriter')"
    by (simp add: NewDockerPopulator_def split: if_splits)
  from writeContext_success [OF this] True show ?thesis
    by (metis (full_types))
next
  case False
  with assms obtain baseImageName packages where
    dt: "determinePackagesLayerBaseImage w d p (collectPackages roles) = Inr (baseImageName, packages)"
    and wc: "writeContext w p baseImageName packages tarWriter = (None, tarWriter')"
    by (auto simp: NewDockerPopulator_def split: if_splits sum.splits)
  from writeContext_success [OF wc] obtain dockerfile rest where
    "generateDockerfile w p baseImageName packages = Inr dockerfile \<and>
     tarWriter' = tarWriter @
        [\<lparr>entry_header = Header_zero\<lparr>Header_Name := ''Dockerfile'', Header_Size := length dockerfile\<rparr>,
           entry_body = dockerfile\<rparr>,
         \<lparr>entry_header = Header_zero\<lparr>Header_Name := ''packages-src'', Header_Mode := 7 * 64 + 5 * 8 + 5,
             Header_Typeflag := tar_TypeDir, Header_Size := 0\<rparr>,
           entry_body = []\<rparr>] @ rest \<and>
     (packages = [] \<longrightarrow> rest = [])"
    by blast
  with False dt show ?thesis
    by (intro exI [of _ baseImageName] exI [of _ packages] exI [of _ dockerfile] exI [of _ rest]) simp
qed

lemma determine_C:
  "determinePackagesLayerBaseImage worldA dockerC builderA [\<lparr>Name = ''p1'', Fingerprint = ''f1'', SHA1 = ''h1''\<rparr>]
     = Inr (''other-image'', [])"
  by (simp add: determinePackagesLayerBaseImage_def worldA_def dockerC_def builderA_def removeFound_def)

lemma WriteToTarStream_A:
  "WriteToTarStream worldA stream data header
     = Inr (stream @ [\<lparr>entry_header = header\<lparr>Header_Size := length data\<rparr>, entry_body = data\<rparr>])"
  by (simp add: WriteToTarStream_def WriteHeader_def Write_def worldA_def)

lemma populate_C:
  "NewDockerPopulator worldA dockerC builderA rolesA False []
     = (None,
        [\<lparr>entry_header = \<lparr>Header_Name = ''Dockerfile'', Header_Mode = 0, Header_Size = 16,
            Header_Typeflag = CHR 0x00, Header_Linkname = []\<rparr>, entry_body = ''FROM other-image''\<rparr>,
         \<lparr>entry_header = \<lparr>Header_Name = ''packages-src'', Header_Mode = 493, Header_Size = 0,
            Header_Typeflag = CHR ''5'', Header_Linkname = []\<rparr>, entry_body = []\<rparr>])"
proof -
  have r: "rolesA \<noteq> []" by (simp add: rolesA_def)
  show ?thesis
    by (simp add: NewDockerPopulator_def r collect_rolesA determine_C writeContext_def generate_A
        WriteToTarStream_A tar_TypeDir_def Header_zero_def)
qed

theorem NewDockerPopulator_context_entries_witness:
  "NewDockerPopulator worldA dockerC builderA rolesA False []
     = (None,
        [\<lparr>entry_header = \<lparr>Header_Name = ''Dockerfile'', Header_Mode = 0, Header_Size = 16,
            Header_Typeflag = CHR 0x00, Header_Linkname = []\<rparr>, entry_body = ''FROM other-image''\<rparr>,
         \<lparr>entry_header = \<lparr>Header_Name = ''packages-src'', Header_Mode = 493, Header_Size = 0,
            Header_Typeflag = CHR ''5'', Header_Linkname = []\<rparr>, entry_body = []\<rparr>]) \<and>
   (\<exists>dockerfile rest.
      generateDockerfile worldA builderA ''other-image'' [] = Inr dockerfile \<and>
      [\<lparr>entry_header = \<lparr>Header_Name = ''Dockerfile'', Header_Mode = 0, Header_Size = 16,
            Header_Typeflag = CHR 0x00, Header_Linkname = []\<rparr>, entry_body = ''FROM other-image''\<rparr>,
       \<lparr>entry_header = \<lparr>Header_Name = ''packages-src'', Header_Mode = 493, Header_Size = 0,
            Header_Typeflag = CHR ''5'', Header_Linkname = []\<rparr>, entry_body = []\<rparr>]
      = [] @
        [\<lparr>entry_header = Header_zero\<lparr>Header_Name := ''Dockerfile'', Header_Size := length dockerfile\<rparr>,
           entry_body = dockerfile\<rparr>,
         \<lparr>entry_header = Header_zero\<lparr>Header_Name := ''packages-src'', Header_Mode := 7 * 64 + 5 * 8 + 5,
             Header_Typeflag := tar_TypeDir, Header_Size := 0\<rparr>,
           entry_body = []\<rparr>] @ rest)"
  using NewDockerPopulator_context_entries [OF populate_C]
  by (auto simp: populate_C collect_rolesA determine_C)

text \<open>
  C9 (amended). A call of the walker of a package that returns without error appends
  one entry: its mode, size and type are those \<^verbatim>\<open>tar.FileInfoHeader\<close> derives from
  the file info, its link name is the target \<^verbatim>\<open>os.Readlink\<close> reports for a symlink,
  its name is the path relative to the package's compiled directory joined to
  \<^verbatim>\<open>packages-src/<fingerprint>\<close>, and for a regular file its body is the first
  \<^verbatim>\<open>info.Size()\<close> bytes of the file: the bytes on disk when the file has the length
  its file info reports.
\<close>

theorem walk_preserves_original:
  assumes "walk w (packageWalker w p pkg) path info err stream = (None, stream')"
  shows "\<exists>header linkname relPath body.
     err = None \<and>
     FileInfoHeader w info [] = Inr header \<and>
     (if FileInfo_Mode info AND os_ModeSymlink \<noteq> 0 then os_Readlink w path = Inr linkname
      else linkname = Header_Linkname header) \<and>
     filepath_Rel w (GetPackageCompiledDir w pkg (compiledPackagesPath p)) path = Inr relPath \<and>
     stream' = stream @
       [\<lparr>entry_header =
           \<lparr>Header_Name = filepath_Join w [filepath_Join w [''packages-src'', Fingerprint pkg], relPath],
            Header_Mode = Header_Mode header,
            Header_Size = Header_Size header,
            Header_Typeflag = Header_Typeflag header,
            Header_Linkname = linkname\<rparr>,
         entry_body = body\<rparr>] \<and>
     (if IsRegular (FileInfo_Mode info)
      then \<exists>file. os_Open w path = Inr file \<and> FileInfo_Size info \<le> length file \<and>
             body = take (FileInfo_Size info) file \<and>
             (length file = FileInfo_Size info \<longrightarrow> body = file)
      else body = [])"
proof -
  from assms have e: "err = None"
    by (auto simp: walk_def split: option.splits)
  from assms e obtain header where h: "FileInfoHeader w info [] = Inr header"
    by (auto simp: walk_def split: sum.splits)
  define sym where "sym = (FileInfo_Mode info AND os_ModeSymlink \<noteq> 0)"
  from assms e h obtain linkname where
    l: "if sym then os_Readlink w path = Inr linkname else linkname = Header_Linkname header"
    by (auto simp: walk_def sym_def split: sum.splits if_splits)
  define header' where "header' = header\<lparr>Header_Linkname := linkname\<rparr>"
  from l have hl: "(if sym
            then (case os_Readlink w path of
                    Inl e \<Rightarrow> Inl e
                  | Inr linkname \<Rightarrow> Inr (header\<lparr>Header_Linkname := linkname\<rparr>))
            else Inr header) = Inr header'"
    by (auto simp: header'_def split: if_splits)
  from assms e h hl obtain relPath where
    r: "filepath_Rel w (GetPackageCompiledDir w pkg (compiledPackagesPath p)) path = Inr relPath"
    by (auto simp: walk_def sym_def packageWalker_def split: sum.splits)
  define entry where "entry = \<lparr>entry_header =
      header'\<lparr>Header_Name := filepath_Join w [filepath_Join w [''packages-src'', Fingerprint pkg], relPath]\<rparr>,
      entry_body = []\<rparr>"
  from assms e h hl r have wh: "WriteHeader_err w stream (entry_header entry) = None"
    by (auto simp: walk_def sym_def packageWalker_def WriteHeader_def entry_def split: sum.splits option.splits)
  have hdr: "header'\<lparr>Header_Name := n\<rparr> = \<lparr>Header_Name = n,
            Header_Mode = Header_Mode header,
            Header_Size = Header_Size header,
            Header_Typeflag = Header_Typeflag header,
            Header_Linkname = linkname\<rparr>" for n
    by (simp add: header'_def)
  show ?thesis
  proof (cases "IsRegular (FileInfo_Mode info)")
    case False
    with assms e h hl r wh have "stream' = stream @ [entry]"
      by (simp add: walk_def sym_def [symmetric] packageWalker_def WriteHeader_def entry_def)
    with e h l r False show ?thesis
      by (intro exI [of _ header] exI [of _ linkname] exI [of _ relPath] exI [of _ "[]"])
        (simp add: entry_def hdr sym_def)
  next
    case True
    with assms e h hl r wh obtain contents where o: "os_Open w path = Inr contents"
      and c: "io_CopyN w (stream @ [entry]) contents (FileInfo_Size info) = (None, stream')"
      by (auto simp: walk_def sym_def [symmetric] packageWalker_def WriteHeader_def entry_def
          split: sum.splits)
    from c have len: "FileInfo_Size info \<le> length contents"
      and s': "stream' = stream @ [entry\<lparr>entry_body := take (FileInfo_Size info) contents\<rparr>]"
      by (auto simp: io_CopyN_def Write_def entry_def split: sum.splits option.splits if_splits)
    with e h l r True o show ?thesis
      by (intro exI [of _ header] exI [of _ linkname] exI [of _ relPath]
          exI [of _ "take (FileInfo_Size info) contents"])
        (simp add: entry_def hdr sym_def)
  qed
qed

lemma walk_A:
  "walk worldA (packageWalker worldA builderA \<lparr>Name = ''p1'', Fingerprint = ''f1'', SHA1 = ''h1''\<rparr>)
     ''/c/f1/run'' \<lparr>FileInfo_Mode = 0x1ED, FileInfo_Size = 2\<rparr> None []
   = (None, [\<lparr>entry_header = \<lparr>Header_Name = ''packages-src/f1/run'', Header_Mode = 493, Header_Size = 2,
        Header_Typeflag = CHR ''0'', Header_Linkname = []\<rparr>, entry_body = ''#!''\<rparr>])"
  by (simp add: packageWalker_def worldA_def builderA_def walk_def os_ModeSymlink_def
      IsRegular_def os_ModeType_def WriteHeader_def io_CopyN_def Write_def Header_zero_def)

theorem walk_preserves_original_witness:
  "walk worldA (packageWalker worldA builderA \<lparr>Name = ''p1'', Fingerprint = ''f1'', SHA1 = ''h1''\<rparr>)
     ''/c/f1/run'' \<lparr>FileInfo_Mode = 0x1ED, FileInfo_Size = 2\<rparr> None []
   = (None, [\<lparr>entry_header = \<lparr>Header_Name = ''packages-src/f1/run'', Header_Mode = 493, Header_Size = 2,
        Header_Typeflag = CHR ''0'', Header_Linkname = []\<rparr>, entry_body = ''#!''\<rparr>]) \<and>
   os_Open worldA ''/c/f1/run'' = Inr ''#!'' \<and>
   (\<exists>header linkname relPath body.
      FileInfoHeader worldA \<lparr>FileInfo_Mode = 0x1ED, FileInfo_Size = 2\<rparr> [] = Inr header \<and>
      filepath_Rel worldA ''/c/f1'' ''/c/f1/run'' = Inr relPath \<and>
      [\<lparr>entry_header = \<lparr>Header_Name = ''packages-src/f1/run'', Header_Mode = 493, Header_Size = 2,
        Header_Typeflag = CHR ''0'', Header_Linkname = []\<rparr>, entry_body = ''#!''\<rparr>]
      = [] @ [\<lparr>entry_header =
           \<lparr>Header_Name = filepath_Join worldA [filepath_Join worldA [''packages-src'', ''f1''], relPath],
            Header_Mode = Header_Mode header,
            Header_Size = Header_Size header,
            Header_Typeflag = Header_Typeflag header,
            Header_Linkname = linkname\<rparr>,
         entry_body = body\<rparr>] \<and>
      body = ''#!'')"
proof -
  have o: "os_Open worldA ''/c/f1/run'' = Inr ''#!''" by (simp add: worldA_def)
  have g: "GetPackageCompiledDir worldA \<lparr>Name = ''p1'', Fingerprint = ''f1'', SHA1 = ''h1''\<rparr>
             (compiledPackagesPath builderA) = ''/c/f1''"
    by (simp add: worldA_def builderA_def)
  have reg: "IsRegular (0x1ED :: 32 word)" by (simp add: IsRegular_def os_ModeType_def)
  from walk_preserves_original [OF walk_A] show ?thesis
    by (auto simp: walk_A o g reg)
qed

text \<open>
  C9 as stated fails for a regular file that is longer than its file info reports:
  \<^verbatim>\<open>io.CopyN\<close> copies \<^verbatim>\<open>info.Size()\<close> bytes and returns no error, so the entry
  holds a proper prefix of the bytes on disk.
\<close>

theorem walk_preserves_original_counterexample:
  "walk worldA (packageWalker worldA builderA \<lparr>Name = ''p1'', Fingerprint = ''f1'', SHA1 = ''h1''\<rparr>)
     ''/c/f1/run'' \<lparr>FileInfo_Mode = 0x1ED, FileInfo_Size = 1\<rparr> None []
   = (None, [\<lparr>entry_header = \<lparr>Header_Name = ''packages-src/f1/run'', Header_Mode = 493, Header_Size = 1,
        Header_Typeflag = CHR ''0'', Header_Linkname = []\<rparr>, entry_body = ''#''\<rparr>]) \<and>
   IsRegular (0x1ED :: 32 word) \<and>
   os_Open worldA ''/c/f1/run'' = Inr ''#!'' \<and>
   ''#'' \<noteq> ''#!''"
  by (simp add: packageWalker_def worldA_def builderA_def walk_def os_ModeSymlink_def
      IsRegular_def os_ModeType_def WriteHeader_def io_CopyN_def Write_def Header_zero_def)

subsection \<open>The residual packages\<close>

lemma strings_Split_no_sep: "sep \<notin> set s \<Longrightarrow> strings_Split s sep = [s]"
  by (induction s) auto

lemma strings_Split_fingerprint:
  "CHR ''.'' \<notin> set fp \<Longrightarrow> strings_Split (''fingerprint.'' @ fp) (CHR ''.'') = [''fingerprint'', fp]"
  by (simp add: strings_Split_no_sep)

lemma removeFound_filter:
  "removeFound label m =
     filter (\<lambda>(k, v). \<not> (isFingerprintLabel label \<and> strings_Split label (CHR ''.'') ! 1 = k)) m"
  by (auto simp: removeFound_def isFingerprintLabel_def Let_def AList.delete_eq intro: filter_cong)

lemma fold_removeFound:
  "fold removeFound labels m =
     filter (\<lambda>(k, v). \<forall>label\<in>set labels.
        \<not> (isFingerprintLabel label \<and> strings_Split label (CHR ''.'') ! 1 = k)) m"
proof (induction labels arbitrary: m)
  case Nil
  show ?case by simp
next
  case (Cons l labels)
  have "fold removeFound (l # labels) m = fold removeFound labels (removeFound l m)"
    by simp
  also have "\<dots> = filter (\<lambda>(k, v). \<forall>label\<in>set labels.
        \<not> (isFingerprintLabel label \<and> strings_Split label (CHR ''.'') ! 1 = k)) (removeFound l m)"
    by (rule Cons.IH)
  also have "\<dots> = filter (\<lambda>(k, v). \<forall>label\<in>set (l # labels).
        \<not> (isFingerprintLabel label \<and> strings_Split label (CHR ''.'') ! 1 = k)) m"
    unfolding removeFound_filter filter_filter by (rule filter_cong) auto
  finally show ?case .
qed

lemma fold_removeFound_only:
  "fold removeFound (filter isFingerprintLabel labels) m = fold removeFound labels m"
  by (simp add: fold_removeFound) (auto intro: filter_cong)

lemma update_set: "set (AList.update k v al) \<subseteq> insert (k, v) (set al)"
  by (induction al) auto

lemma update_length: "length (AList.update k v al) \<le> Suc (length al)"
  by (induction al) auto

lemma remaining_set:
  "set (fold (\<lambda>pkg. AList.update (Fingerprint pkg) pkg) packages acc)
     \<subseteq> set acc \<union> (\<lambda>pkg. (Fingerprint pkg, pkg)) ` set packages"
proof (induction packages arbitrary: acc)
  case Nil
  show ?case by simp
next
  case (Cons pkg packages)
  from Cons.IH [of "AList.update (Fingerprint pkg) pkg acc"]
    update_set [of "Fingerprint pkg" pkg acc]
  show ?case by auto
qed

lemma remaining_length:
  "length (fold (\<lambda>pkg. AList.update (Fingerprint pkg) pkg) packages acc)
     \<le> length acc + length packages"
proof (induction packages arbitrary: acc)
  case Nil
  show ?case by simp
next
  case (Cons pkg packages)
  from Cons.IH [of "AList.update (Fingerprint pkg) pkg acc"]
    update_length [of "Fingerprint pkg" pkg acc]
  show ?case by simp
qed

lemma determine_Inr:
  assumes "determinePackagesLayerBaseImage w d p packages = Inr (matchedImage, residual)"
  shows "\<exists>foundLabels.
     NewImageManager d = None \<and>
     FindBestImageWithLabels d
       (if baseImageOverride w \<noteq> [] then baseImageOverride w else stemcellImageName p)
       (map (\<lambda>pkg. ''fingerprint.'' @ Fingerprint pkg) packages) [fissileVersionLabel p]
       = Inr (matchedImage, foundLabels) \<and>
     residual = map snd (range_order w (fold removeFound foundLabels
        (fold (\<lambda>pkg. AList.update (Fingerprint pkg) pkg) packages [])))"
  using assms
  by (auto simp: determinePackagesLayerBaseImage_def Let_def split: option.splits sum.splits)

text \<open>
  C3 (amended). When \<^verbatim>\<open>determinePackagesLayerBaseImage\<close> returns a result for the
  packages \<open>P\<close>, whatever image and labels the catalog found: the residual packages are
  among \<open>P\<close> and no more than \<open>P\<close>; no residual package has a fingerprint \<open>fp\<close> such that
  a found label splits at its dots into exactly \<^verbatim>\<open>fingerprint\<close> and \<open>fp\<close>, so for a
  fingerprint without a dot the label \<^verbatim>\<open>fingerprint.<fp>\<close> is not among the found
  labels; and the result is the same when every found label that is not of this
  two-part shape is left out. Any order of map iteration is allowed.
\<close>

theorem determinePackagesLayerBaseImage_residual:
  assumes order: "\<And>m. mset (range_order w m) = mset m"
    and result: "determinePackagesLayerBaseImage w d p packages = Inr (matchedImage, residual)"
  shows "set residual \<subseteq> set packages \<and> length residual \<le> length packages \<and>
     (\<exists>foundLabels.
        FindBestImageWithLabels d
          (if baseImageOverride w \<noteq> [] then baseImageOverride w else stemcellImageName p)
          (map (\<lambda>pkg. ''fingerprint.'' @ Fingerprint pkg) packages) [fissileVersionLabel p]
          = Inr (matchedImage, foundLabels) \<and>
        (\<forall>pkg\<in>set residual. \<forall>label\<in>set foundLabels.
           strings_Split label (CHR ''.'') \<noteq> [''fingerprint'', Fingerprint pkg]) \<and>
        (\<forall>pkg\<in>set residual. CHR ''.'' \<notin> set (Fingerprint pkg) \<longrightarrow>
           ''fingerprint.'' @ Fingerprint pkg \<notin> set foundLabels)) \<and>
     determinePackagesLayerBaseImage w (onlyFingerprintLabels d) p packages = Inr (matchedImage, residual)"
proof -
  from determine_Inr [OF result] obtain foundLabels where
    mgr: "NewImageManager d = None"
    and found: "FindBestImageWithLabels d
       (if baseImageOverride w \<noteq> [] then baseImageOverride w else stemcellImageName p)
       (map (\<lambda>pkg. ''fingerprint.'' @ Fingerprint pkg) packages) [fissileVersionLabel p]
       = Inr (matchedImage, foundLabels)"
    and res: "residual = map snd (range_order w (fold removeFound foundLabels
        (fold (\<lambda>pkg. AList.update (Fingerprint pkg) pkg) packages [])))"
    by blast
  define m0 where "m0 = fold (\<lambda>pkg. AList.update (Fingerprint pkg) pkg) packages []"
  define m1 where "m1 = fold removeFound foundLabels m0"
  have set_order: "set (range_order w m1) = set m1"
    using order [of m1] by (rule mset_eq_setD)
  have len_order: "length (range_order w m1) = length m1"
    using order [of m1] by (rule mset_eq_length)
  have m0: "set m0 \<subseteq> (\<lambda>pkg. (Fingerprint pkg, pkg)) ` set packages"
    using remaining_set [of packages "[]"] by (simp add: m0_def)
  have m1: "set m1 \<subseteq> set m0" by (auto simp: m1_def fold_removeFound)
  have in_res: "(Fingerprint pkg, pkg) \<in> set m1 \<and> pkg \<in> set packages" if "pkg \<in> set residual" for pkg
    using that m0 m1 set_order unfolding res m0_def [symmetric] m1_def [symmetric] by auto
  have 1: "set residual \<subseteq> set packages" using in_res by blast
  have "length m1 \<le> length m0" by (simp add: m1_def fold_removeFound)
  moreover have "length m0 \<le> length packages"
    using remaining_length [of packages "[]"] by (simp add: m0_def)
  ultimately have 2: "length residual \<le> length packages"
    using len_order by (simp add: res m0_def [symmetric] m1_def [symmetric])
  have 3: "strings_Split label (CHR ''.'') \<noteq> [''fingerprint'', Fingerprint pkg]"
    if "pkg \<in> set residual" "label \<in> set foundLabels" for pkg label
  proof
    assume s: "strings_Split label (CHR ''.'') = [''fingerprint'', Fingerprint pkg]"
    from in_res [OF that(1)] have "(Fingerprint pkg, pkg) \<in> set m1" by simp
    then have "\<not> (isFingerprintLabel label \<and> strings_Split label (CHR ''.'') ! 1 = Fingerprint pkg)"
      using that(2) by (auto simp: m1_def fold_removeFound)
    with s show False by (simp add: isFingerprintLabel_def)
  qed
  have 4: "''fingerprint.'' @ Fingerprint pkg \<notin> set foundLabels"
    if "pkg \<in> set residual" "CHR ''.'' \<notin> set (Fingerprint pkg)" for pkg
    using 3 [OF that(1), of "''fingerprint.'' @ Fingerprint pkg"] strings_Split_fingerprint [OF that(2)]
    by blast
  have 5: "determinePackagesLayerBaseImage w (onlyFingerprintLabels d) p packages = Inr (matchedImage, residual)"
    using mgr found res
    by (simp add: determinePackagesLayerBaseImage_def onlyFingerprintLabels_def Let_def fold_removeFound_only)
  from 1 2 3 4 5 found show ?thesis by blast
qed

lemma determine_dot:
  "determinePackagesLayerBaseImage worldA dockerC builderA [pkgDot] = Inr (''other-image'', [pkgDot])"
  by (simp add: determinePackagesLayerBaseImage_def worldA_def dockerC_def builderA_def removeFound_def
      pkgDot_def)

text \<open>
  C3 as stated fails for a fingerprint with a dot: the label \<^verbatim>\<open>fingerprint.a.b\<close> has
  three parts, is skipped by the test of line 155, and the package stays in the residual
  although its label is among the found labels.
\<close>

theorem determinePackagesLayerBaseImage_residual_counterexample:
  "determinePackagesLayerBaseImage worldA dockerC builderA [pkgDot] = Inr (''other-image'', [pkgDot]) \<and>
   FindBestImageWithLabels dockerC ''stemcell'' [''fingerprint.'' @ Fingerprint pkgDot]
      [''version.generator.fissile=1.2.3'']
     = Inr (''other-image'', [''version.generator.fissile=1.2.3'', ''fingerprint.'' @ Fingerprint pkgDot]) \<and>
   pkgDot \<in> set [pkgDot] \<and>
   ''fingerprint.'' @ Fingerprint pkgDot
     \<in> set [''version.generator.fissile=1.2.3'', ''fingerprint.'' @ Fingerprint pkgDot]"
  using determine_dot by (simp add: dockerC_def)

lemma range_order_A: "mset (range_order worldA m) = mset m"
  by (simp add: worldA_def)

lemma determine_D:
  "determinePackagesLayerBaseImage worldA dockerD builderA
     [\<lparr>Name = ''p1'', Fingerprint = ''f1'', SHA1 = ''h1''\<rparr>,
      \<lparr>Name = ''p2'', Fingerprint = ''f2'', SHA1 = ''h2''\<rparr>]
   = Inr (''other-image'', [\<lparr>Name = ''p2'', Fingerprint = ''f2'', SHA1 = ''h2''\<rparr>])"
  by (simp add: determinePackagesLayerBaseImage_def worldA_def dockerD_def builderA_def removeFound_def)

theorem determinePackagesLayerBaseImage_residual_witness:
  "(\<forall>m. mset (range_order worldA m) = mset m) \<and>
   determinePackagesLayerBaseImage worldA dockerD builderA
     [\<lparr>Name = ''p1'', Fingerprint = ''f1'', SHA1 = ''h1''\<rparr>,
      \<lparr>Name = ''p2'', Fingerprint = ''f2'', SHA1 = ''h2''\<rparr>]
     = Inr (''other-image'', [\<lparr>Name = ''p2'', Fingerprint = ''f2'', SHA1 = ''h2''\<rparr>]) \<and>
   ''fingerprint.f1'' \<in> set [''version.generator.fissile=1.2.3'', ''fingerprint.f1''] \<and>
   determinePackagesLayerBaseImage worldA (onlyFingerprintLabels dockerD) builderA
     [\<lparr>Name = ''p1'', Fingerprint = ''f1'', SHA1 = ''h1''\<rparr>,
      \<lparr>Name = ''p2'', Fingerprint = ''f2'', SHA1 = ''h2''\<rparr>]
     = Inr (''other-image'', [\<lparr>Name = ''p2'', Fingerprint = ''f2'', SHA1 = ''h2''\<rparr>])"
  using determinePackagesLayerBaseImage_residual [of worldA, OF range_order_A determine_D]
  by (simp add: range_order_A determine_D)

text \<open>
  C8 (amended). Called with no packages, \<^verbatim>\<open>determinePackagesLayerBaseImage\<close> still
  asks the catalog, with no candidate labels: it returns the error of the docker
  connection or of the lookup, and otherwise the image the catalog matched together
  with an empty residual.
\<close>

theorem determinePackagesLayerBaseImage_no_packages:
  assumes order: "\<And>m. mset (range_order w m) = mset m"
  shows "determinePackagesLayerBaseImage w d p [] =
     (case NewImageManager d of
        Some err \<Rightarrow> Inl err
      | None \<Rightarrow>
         (case FindBestImageWithLabels d
                 (if baseImageOverride w \<noteq> [] then baseImageOverride w else stemcellImageName p)
                 [] [fissileVersionLabel p] of
            Inl err \<Rightarrow> Inl err
          | Inr (matchedImage, foundLabels) \<Rightarrow> Inr (matchedImage, [])))"
proof -
  have "fold removeFound foundLabels [] = []" for foundLabels
    by (simp add: fold_removeFound)
  moreover have "range_order w [] = []"
    using order [of "[]"] by simp
  ultimately show ?thesis
    by (simp add: determinePackagesLayerBaseImage_def split: option.splits sum.splits)
qed

theorem determinePackagesLayerBaseImage_no_packages_witness:
  "(\<forall>m. mset (range_order worldA m) = mset m) \<and>
   determinePackagesLayerBaseImage worldA dockerA builderA [] = Inr (stemcellImageName builderA, [])"
  using determinePackagesLayerBaseImage_no_packages [of worldA dockerA builderA, OF range_order_A]
  by (simp add: range_order_A dockerA_def worldA_def)

text \<open>
  C8 as stated fails for a catalog that answers with another image than the stemcell:
  its answer is returned as it is.
\<close>

theorem determinePackagesLayerBaseImage_no_packages_counterexample:
  "determinePackagesLayerBaseImage worldA dockerC builderA [] = Inr (''other-image'', []) \<and>
   stemcellImageName builderA = ''stemcell'' \<and> baseImageOverride worldA = []"
  by (simp add: determinePackagesLayerBaseImage_def worldA_def dockerC_def builderA_def removeFound_def)

subsection \<open>The image name\<close>

lemma sha1_schedule_numeral:
  "sha1_schedule (numeral k) rs =
     sha1_schedule (pred_numeral k) (rotl 1 (rs ! 2 XOR rs ! 7 XOR rs ! 13 XOR rs ! 15) # rs)"
  by (simp add: numeral_eq_Suc)

lemma replicate_numeral': "replicate (numeral k) x = x # replicate (pred_numeral k) x"
  by (simp add: numeral_eq_Suc)

lemmas sha1_eval = sha1_Sum_def sha1_pad_def replicate_numeral' sha1_block_def sha1_compress_def
  sha1_schedule_numeral rotl_def sha1_Ch_def sha1_Maj_def sha1_Parity_def hex_EncodeToString_def

text \<open>The two digests, computed by the model of SHA-1.\<close>

lemma digest_h1:
  "hex_EncodeToString (sha1_Sum (''1.2.3:sha:abc'' @ [CHR 0x00] @ ''f1'' @ [CHR 0x00] @ ''p1'' @ [CHR 0x00] @ ''h1''))
     = ''210882475c3e0ecff720163bd6d3744bb49ae683''"
  by (simp add: sha1_eval)

lemma digest_h2:
  "hex_EncodeToString (sha1_Sum (''1.2.3:sha:abc'' @ [CHR 0x00] @ ''f1'' @ [CHR 0x00] @ ''p1'' @ [CHR 0x00] @ ''h2''))
     = ''81381703b679f374843a4dfe179cff2e16a38880''"
  by (simp add: sha1_eval)

lemma pkgMap_allPackages:
  "pkgMap roles = fold (\<lambda>pkg. AList.update (Fingerprint pkg) pkg) (allPackages roles) []"
proof -
  have jobs: "fold (\<lambda>j. fold (\<lambda>pkg. AList.update (Fingerprint pkg) pkg) (Packages j)) js m
        = fold (\<lambda>pkg. AList.update (Fingerprint pkg) pkg) (concat (map Packages js)) m" for js m
    by (rule fold_fold_concat)
  have "fold (\<lambda>r. fold (\<lambda>j. fold (\<lambda>pkg. AList.update (Fingerprint pkg) pkg) (Packages j)) (RoleJobs r)) roles m
        = fold (\<lambda>pkg. AList.update (Fingerprint pkg) pkg) (allPackages roles) m" for m
    by (induction roles arbitrary: m) (simp_all add: allPackages_def jobs)
  then show ?thesis by (simp add: pkgMap_def)
qed

lemma fold_update_distinct:
  "distinct (map fst acc) \<Longrightarrow>
   distinct (map fst (fold (\<lambda>pkg. AList.update (Fingerprint pkg) pkg) pkgs acc))"
  by (induction pkgs arbitrary: acc) (simp_all add: distinct_update)

lemma find_append':
  "find P (xs @ ys) = (case find P xs of None \<Rightarrow> find P ys | Some x \<Rightarrow> Some x)"
  by (induction xs) simp_all

lemma fold_update_map_of:
  "map_of (fold (\<lambda>pkg. AList.update (Fingerprint pkg) pkg) pkgs acc) fp =
     (case find (\<lambda>q. Fingerprint q = fp) (rev pkgs) of
        Some q \<Rightarrow> Some q
      | None \<Rightarrow> map_of acc fp)"
proof (induction pkgs arbitrary: acc)
  case Nil
  show ?case by simp
next
  case (Cons pkg pkgs)
  show ?case
    by (simp add: Cons.IH update_conv' find_append' split: option.splits)
qed

lemma pkgMap_member:
  "(fp, pkg) \<in> set (pkgMap roles) \<longleftrightarrow>
     find (\<lambda>q. Fingerprint q = fp) (rev (allPackages roles)) = Some pkg"
proof -
  have d: "distinct (map fst (pkgMap roles))"
    by (simp add: pkgMap_allPackages fold_update_distinct)
  have "map_of (pkgMap roles) fp = find (\<lambda>q. Fingerprint q = fp) (rev (allPackages roles))"
    by (simp add: pkgMap_allPackages fold_update_map_of split: option.splits)
  with d show ?thesis by (metis map_of_eq_Some_iff)
qed

lemma pkgMap_distinct: "distinct (map fst (pkgMap roles))"
  by (simp add: pkgMap_allPackages fold_update_distinct)

lemma find_SomeD: "find P xs = Some x \<Longrightarrow> x \<in> set xs \<and> P x"
  by (induction xs) (auto split: if_splits)

lemma distinct_map_sort_key: "distinct (map f (sort_key f xs)) = distinct (map f xs)"
proof -
  have "mset (map f (sort_key f xs)) = mset (map f xs)" by simp
  then show ?thesis by (rule mset_eq_imp_distinct_iff)
qed

lemma sort_key_unique:
  assumes "set xs = set ys" "distinct (map f xs)" "distinct (map f ys)"
  shows "sort_key f xs = sort_key f ys"
proof -
  have dx: "distinct (map f (sort_key f xs))" using assms(2) by (simp only: distinct_map_sort_key)
  have dy: "distinct (map f (sort_key f ys))" using assms(3) by (simp only: distinct_map_sort_key)
  have "set (map f (sort_key f xs)) = set (map f (sort_key f ys))" using assms(1) by simp
  with dx dy have m: "map f (sort_key f xs) = map f (sort_key f ys)"
    by (intro sorted_distinct_set_unique) (simp_all add: sorted_sort_key)
  have "inj_on f (set xs)" using assms(2) by (simp add: distinct_map)
  then have "inj_on f (set (sort_key f xs) \<union> set (sort_key f ys))" using assms(1) by simp
  from inj_on_map_eq_map [OF this] m show ?thesis by blast
qed

lemma range_values_member:
  assumes order: "\<And>m. mset (range_order w m) = mset m"
  shows "pkg \<in> set (map snd (range_order w (pkgMap roles))) \<longleftrightarrow>
     find (\<lambda>q. Fingerprint q = Fingerprint pkg) (rev (allPackages roles)) = Some pkg"
proof -
  have s: "set (range_order w (pkgMap roles)) = set (pkgMap roles)"
    using order [of "pkgMap roles"] by (rule mset_eq_setD)
  have "pkg \<in> snd ` set (pkgMap roles) \<longleftrightarrow> (Fingerprint pkg, pkg) \<in> set (pkgMap roles)"
  proof
    assume "pkg \<in> snd ` set (pkgMap roles)"
    then obtain fp where m: "(fp, pkg) \<in> set (pkgMap roles)" by force
    then have "find (\<lambda>q. Fingerprint q = fp) (rev (allPackages roles)) = Some pkg"
      by (simp add: pkgMap_member)
    then have "Fingerprint pkg = fp" by (auto dest: find_SomeD)
    with m show "(Fingerprint pkg, pkg) \<in> set (pkgMap roles)" by simp
  next
    assume "(Fingerprint pkg, pkg) \<in> set (pkgMap roles)"
    then show "pkg \<in> snd ` set (pkgMap roles)" by force
  qed
  with s show ?thesis by (simp add: pkgMap_member)
qed

lemma range_values_distinct:
  assumes order: "\<And>m. mset (range_order w m) = mset m"
  shows "distinct (map Fingerprint (map snd (range_order w (pkgMap roles))))"
proof -
  have s: "set (range_order w (pkgMap roles)) = set (pkgMap roles)"
    using order [of "pkgMap roles"] by (rule mset_eq_setD)
  have key: "Fingerprint (snd e) = fst e" if "e \<in> set (range_order w (pkgMap roles))" for e
  proof -
    from that s have "(fst e, snd e) \<in> set (pkgMap roles)" by simp
    then have "find (\<lambda>q. Fingerprint q = fst e) (rev (allPackages roles)) = Some (snd e)"
      by (rule pkgMap_member [THEN iffD1])
    then show ?thesis by (auto dest: find_SomeD)
  qed
  have eq: "map Fingerprint (map snd (range_order w (pkgMap roles))) = map fst (range_order w (pkgMap roles))"
    using key by simp
  have "mset (map fst (range_order w (pkgMap roles))) = mset (map fst (pkgMap roles))"
    using order [of "pkgMap roles"] by simp
  then have d: "distinct (map fst (range_order w (pkgMap roles)))"
    using pkgMap_distinct [of roles] by (metis mset_eq_imp_distinct_iff)
  show ?thesis unfolding eq by (rule d)
qed

lemma find_rev_functional:
  assumes "\<forall>a\<in>set pkgs. \<forall>b\<in>set pkgs. Fingerprint a = Fingerprint b \<longrightarrow> a = b"
  shows "find (\<lambda>q. Fingerprint q = Fingerprint pkg) (rev pkgs) = Some pkg \<longleftrightarrow> pkg \<in> set pkgs"
proof
  assume "find (\<lambda>q. Fingerprint q = Fingerprint pkg) (rev pkgs) = Some pkg"
  then have "pkg \<in> set (rev pkgs)" by (auto dest: find_SomeD)
  then show "pkg \<in> set pkgs" by simp
next
  assume m: "pkg \<in> set pkgs"
  then have "find (\<lambda>q. Fingerprint q = Fingerprint pkg) (rev pkgs) \<noteq> None"
    by (auto simp: find_None_iff)
  then obtain q where q: "find (\<lambda>q. Fingerprint q = Fingerprint pkg) (rev pkgs) = Some q" by blast
  then have "q \<in> set (rev pkgs) \<and> Fingerprint q = Fingerprint pkg"
    by (auto dest: find_SomeD)
  with assms m have "q = pkg" by auto
  with q show "find (\<lambda>q. Fingerprint q = Fingerprint pkg) (rev pkgs) = Some pkg" by simp
qed

text \<open>
  C1 (amended). Let the packages of the roles be such that two of them with the same
  fingerprint are the same package. Then \<^verbatim>\<open>GetPackagesLayerImageName\<close> returns the
  same reference for any roles whose packages are a permutation of them, whatever
  order the two map iterations take: the packages hashed are the same list.
\<close>

theorem GetPackagesLayerImageName_permutation:
  assumes order: "\<And>m. mset (range_order w m) = mset m"
    and order': "\<And>m. mset (range_order w' m) = mset m"
    and sanitize: "SanitizeDockerName w' = SanitizeDockerName w"
    and perm: "mset (allPackages roles') = mset (allPackages roles)"
    and functional: "\<forall>a\<in>set (allPackages roles). \<forall>b\<in>set (allPackages roles).
        Fingerprint a = Fingerprint b \<longrightarrow> a = b"
  shows "sortedPackages w' roles' = sortedPackages w roles \<and>
         GetPackagesLayerImageName w' p roles' = GetPackagesLayerImageName w p roles"
proof -
  from perm have sets: "set (allPackages roles') = set (allPackages roles)"
    by (rule mset_eq_setD)
  with functional have functional': "\<forall>a\<in>set (allPackages roles'). \<forall>b\<in>set (allPackages roles').
        Fingerprint a = Fingerprint b \<longrightarrow> a = b"
    by simp
  have "set (map snd (range_order w (pkgMap roles))) = set (allPackages roles)"
    using range_values_member [of w _ roles, OF order] find_rev_functional [OF functional] by blast
  moreover have "set (map snd (range_order w' (pkgMap roles'))) = set (allPackages roles')"
    using range_values_member [of w' _ roles', OF order'] find_rev_functional [OF functional'] by blast
  ultimately have "set (map snd (range_order w' (pkgMap roles'))) = set (map snd (range_order w (pkgMap roles)))"
    using sets by simp
  then have "sortedPackages w' roles' = sortedPackages w roles"
    unfolding sortedPackages_def Packages_Sort_def
    by (rule sort_key_unique) (rule range_values_distinct [OF order'], rule range_values_distinct [OF order])
  then show ?thesis
    by (simp add: GetPackagesLayerImageName_def sanitize)
qed

text \<open>
  C10. The tag is the sanitized hex SHA-1 digest of the version, a colon, the stemcell
  image ID and then, for every hashed package in turn, a zero byte and its fingerprint,
  a zero byte and its name, a zero byte and its hash. The packages hashed are sorted by
  fingerprint, hold every fingerprint of the roles' packages exactly once, and each is
  the last package with its fingerprint in iteration order; each package
  \<^verbatim>\<open>NewDockerPopulator\<close> collects is the first one with its fingerprint.
\<close>

theorem GetPackagesLayerImageName_last_occurrence:
  assumes order: "\<And>m. mset (range_order w m) = mset m"
  shows "GetPackagesLayerImageName w p roles =
       SanitizeDockerName w (repository p @ ''-role-packages'') @ '':''
         @ SanitizeDockerName w (hex_EncodeToString (sha1_Sum
             (fissileVersion p @ '':'' @ stemcellImageID p
                @ concat (map (\<lambda>pkg. [CHR 0x00] @ Fingerprint pkg @ [CHR 0x00] @ Name pkg
                                       @ [CHR 0x00] @ SHA1 pkg)
                            (sortedPackages w roles))))) \<and>
     distinct (map Fingerprint (sortedPackages w roles)) \<and>
     sorted (map Fingerprint (sortedPackages w roles)) \<and>
     Fingerprint ` set (sortedPackages w roles) = Fingerprint ` set (allPackages roles) \<and>
     (\<forall>pkg\<in>set (sortedPackages w roles).
        find (\<lambda>q. Fingerprint q = Fingerprint pkg) (rev (allPackages roles)) = Some pkg) \<and>
     (\<forall>pkg\<in>set (collectPackages roles).
        find (\<lambda>q. Fingerprint q = Fingerprint pkg) (allPackages roles) = Some pkg)"
proof -
  let ?L = "map snd (range_order w (pkgMap roles))"
  have mem: "pkg \<in> set ?L \<longleftrightarrow>
     find (\<lambda>q. Fingerprint q = Fingerprint pkg) (rev (allPackages roles)) = Some pkg" for pkg
    by (rule range_values_member [OF order])
  have 1: "distinct (map Fingerprint (sortedPackages w roles))"
    using range_values_distinct [of w roles, OF order]
    by (simp only: sortedPackages_def Packages_Sort_def distinct_map_sort_key)
  have 2: "sorted (map Fingerprint (sortedPackages w roles))"
    by (simp add: sortedPackages_def Packages_Sort_def sorted_sort_key)
  have 3: "Fingerprint ` set (sortedPackages w roles) = Fingerprint ` set (allPackages roles)"
  proof
    show "Fingerprint ` set (sortedPackages w roles) \<subseteq> Fingerprint ` set (allPackages roles)"
    proof
      fix fp assume "fp \<in> Fingerprint ` set (sortedPackages w roles)"
      then obtain pkg where "pkg \<in> set ?L" "fp = Fingerprint pkg"
        by (auto simp: sortedPackages_def Packages_Sort_def)
      with mem [of pkg] have "pkg \<in> set (rev (allPackages roles))" by (auto dest: find_SomeD)
      with \<open>fp = Fingerprint pkg\<close> show "fp \<in> Fingerprint ` set (allPackages roles)" by simp
    qed
  next
    show "Fingerprint ` set (allPackages roles) \<subseteq> Fingerprint ` set (sortedPackages w roles)"
    proof
      fix fp assume "fp \<in> Fingerprint ` set (allPackages roles)"
      then have "find (\<lambda>q. Fingerprint q = fp) (rev (allPackages roles)) \<noteq> None"
        by (auto simp: find_None_iff)
      then obtain q where q: "find (\<lambda>q. Fingerprint q = fp) (rev (allPackages roles)) = Some q" by blast
      then have fq: "Fingerprint q = fp" by (auto dest: find_SomeD)
      with q mem [of q] have "q \<in> set ?L" by simp
      with fq show "fp \<in> Fingerprint ` set (sortedPackages w roles)"
        by (auto simp: sortedPackages_def Packages_Sort_def simp del: set_map)
    qed
  qed
  have 4: "\<forall>pkg\<in>set (sortedPackages w roles).
        find (\<lambda>q. Fingerprint q = Fingerprint pkg) (rev (allPackages roles)) = Some pkg"
    using mem by (simp add: sortedPackages_def Packages_Sort_def)
  have 5: "find (\<lambda>q. Fingerprint q = Fingerprint pkg) (allPackages roles) = Some pkg"
    if "pkg \<in> set (collectPackages roles)" for pkg
  proof -
    from that firstOccurrences_set [of "{}" "allPackages roles"]
    have "pkg \<in> set (allPackages roles)" by (auto simp: collectPackages_firstOccurrences)
    then have "find (\<lambda>q. Fingerprint q = Fingerprint pkg) (allPackages roles) \<noteq> None"
      by (auto simp: find_None_iff)
    then obtain q where q: "find (\<lambda>q. Fingerprint q = Fingerprint pkg) (allPackages roles) = Some q"
      by blast
    have f: "filter (\<lambda>q'. Fingerprint q' = Fingerprint pkg) (collectPackages roles) = [q]"
      using firstOccurrences_filter [of "Fingerprint pkg" "{}" "allPackages roles" q] q
      by (simp add: collectPackages_firstOccurrences)
    from that have "pkg \<in> set (filter (\<lambda>q'. Fingerprint q' = Fingerprint pkg) (collectPackages roles))"
      by simp
    with f have "pkg = q" by simp
    with q show ?thesis by simp
  qed
  have bytes: "hashInput p pkgs =
       fissileVersion p @ '':'' @ stemcellImageID p
         @ concat (map (\<lambda>pkg. [CHR 0x00] @ Fingerprint pkg @ [CHR 0x00] @ Name pkg
                                @ [CHR 0x00] @ SHA1 pkg) pkgs)" for pkgs
    by (simp add: hashInput_def)
  have 0: "GetPackagesLayerImageName w p roles =
       SanitizeDockerName w (repository p @ ''-role-packages'') @ '':''
         @ SanitizeDockerName w (hex_EncodeToString (sha1_Sum
             (fissileVersion p @ '':'' @ stemcellImageID p
                @ concat (map (\<lambda>pkg. [CHR 0x00] @ Fingerprint pkg @ [CHR 0x00] @ Name pkg
                                       @ [CHR 0x00] @ SHA1 pkg)
                            (sortedPackages w roles)))))"
    unfolding GetPackagesLayerImageName_def bytes ..
  from 5 have 6: "\<forall>pkg\<in>set (collectPackages roles).
        find (\<lambda>q. Fingerprint q = Fingerprint pkg) (allPackages roles) = Some pkg"
    by blast
  show ?thesis
    by (intro conjI) (fact 0, fact 1, fact 2, fact 3, fact 4, fact 6)
qed

lemma range_order_B: "mset (range_order worldB m) = mset m"
  by (simp add: worldB_def)

lemma range_order_single:
  assumes "\<And>m. mset (range_order w m) = mset m"
  shows "range_order w [e] = [e]"
proof -
  have "mset (range_order w [e]) = {#e#}" using assms [of "[e]"] by simp
  then show ?thesis by (cases "range_order w [e]") (auto split: if_splits)
qed

lemma sortedPackages_single:
  assumes "\<And>m. mset (range_order w m) = mset m" and "pkgMap roles = [(fp, pkg)]"
  shows "sortedPackages w roles = [pkg]"
  by (simp add: sortedPackages_def Packages_Sort_def assms(2) range_order_single [OF assms(1)])

lemma pkgMap_single: "allPackages roles = [pkg] \<Longrightarrow> pkgMap roles = [(Fingerprint pkg, pkg)]"
  by (simp add: pkgMap_allPackages)

lemma hashInput_h1:
  assumes "fissileVersion p = ''1.2.3''" "stemcellImageID p = ''sha:abc''"
  shows "hashInput p [\<lparr>Name = ''p1'', Fingerprint = ''f1'', SHA1 = ''h1''\<rparr>]
     = ''1.2.3:sha:abc'' @ [CHR 0x00] @ ''f1'' @ [CHR 0x00] @ ''p1'' @ [CHR 0x00] @ ''h1''"
  by (simp add: hashInput_def assms)

lemma hashInput_h2:
  assumes "fissileVersion p = ''1.2.3''" "stemcellImageID p = ''sha:abc''"
  shows "hashInput p [\<lparr>Name = ''p1'', Fingerprint = ''f1'', SHA1 = ''h2''\<rparr>]
     = ''1.2.3:sha:abc'' @ [CHR 0x00] @ ''f1'' @ [CHR 0x00] @ ''p1'' @ [CHR 0x00] @ ''h2''"
  by (simp add: hashInput_def assms)

lemma image_name_h1:
  assumes order: "\<And>m. mset (range_order w m) = mset m"
    and name: "SanitizeDockerName w ''acme-role-packages'' = ''acme-role-packages''"
    and hex: "\<And>s. set s \<subseteq> set ''0123456789abcdef'' \<Longrightarrow> SanitizeDockerName w s = s"
    and p: "repository p = ''acme''" "fissileVersion p = ''1.2.3''" "stemcellImageID p = ''sha:abc''"
    and roles: "pkgMap roles = [(''f1'', \<lparr>Name = ''p1'', Fingerprint = ''f1'', SHA1 = ''h1''\<rparr>)]"
  shows "GetPackagesLayerImageName w p roles = ''acme-role-packages:210882475c3e0ecff720163bd6d3744bb49ae683''"
proof -
  have n: "repository p @ ''-role-packages'' = ''acme-role-packages''" by (simp add: p)
  have t: "SanitizeDockerName w ''210882475c3e0ecff720163bd6d3744bb49ae683''
     = ''210882475c3e0ecff720163bd6d3744bb49ae683''"
    by (rule hex) simp
  show ?thesis
    unfolding GetPackagesLayerImageName_def sortedPackages_single [OF order roles]
      hashInput_h1 [OF p(2,3)] digest_h1 n name t
    by simp
qed

lemma image_name_h2:
  assumes order: "\<And>m. mset (range_order w m) = mset m"
    and name: "SanitizeDockerName w ''acme-role-packages'' = ''acme-role-packages''"
    and hex: "\<And>s. set s \<subseteq> set ''0123456789abcdef'' \<Longrightarrow> SanitizeDockerName w s = s"
    and p: "repository p = ''acme''" "fissileVersion p = ''1.2.3''" "stemcellImageID p = ''sha:abc''"
    and roles: "pkgMap roles = [(''f1'', \<lparr>Name = ''p1'', Fingerprint = ''f1'', SHA1 = ''h2''\<rparr>)]"
  shows "GetPackagesLayerImageName w p roles = ''acme-role-packages:81381703b679f374843a4dfe179cff2e16a38880''"
proof -
  have n: "repository p @ ''-role-packages'' = ''acme-role-packages''" by (simp add: p)
  have t: "SanitizeDockerName w ''81381703b679f374843a4dfe179cff2e16a38880''
     = ''81381703b679f374843a4dfe179cff2e16a38880''"
    by (rule hex) simp
  show ?thesis
    unfolding GetPackagesLayerImageName_def sortedPackages_single [OF order roles]
      hashInput_h2 [OF p(2,3)] digest_h2 n name t
    by simp
qed

text \<open>
  C2. For the repository \<^verbatim>\<open>acme\<close>, version \<^verbatim>\<open>1.2.3\<close>, stemcell image ID
  \<^verbatim>\<open>sha:abc\<close> and the single package \<^verbatim>\<open>f1\<close>, \<^verbatim>\<open>p1\<close>, \<^verbatim>\<open>h1\<close>, with a
  sanitizer that leaves the name and lower-case hex digits as they are: the reference is
  \<^verbatim>\<open>acme-role-packages\<close>, a colon and the hex SHA-1 digest of
  \<^verbatim>\<open>1.2.3:sha:abc\0f1\0p1\0h1\<close>, which is \<^verbatim>\<open>210882475c3e0ecff720163bd6d3744bb49ae683\<close>;
  with the hash \<^verbatim>\<open>h2\<close> the reference differs.
\<close>

theorem GetPackagesLayerImageName_example:
  assumes order: "\<And>m. mset (range_order w m) = mset m"
    and name: "SanitizeDockerName w ''acme-role-packages'' = ''acme-role-packages''"
    and hex: "\<And>s. set s \<subseteq> set ''0123456789abcdef'' \<Longrightarrow> SanitizeDockerName w s = s"
    and p: "repository p = ''acme''" "fissileVersion p = ''1.2.3''" "stemcellImageID p = ''sha:abc''"
    and roles: "allPackages roles = [\<lparr>Name = ''p1'', Fingerprint = ''f1'', SHA1 = ''h1''\<rparr>]"
    and roles': "allPackages roles' = [\<lparr>Name = ''p1'', Fingerprint = ''f1'', SHA1 = ''h2''\<rparr>]"
  shows "GetPackagesLayerImageName w p roles
       = ''acme-role-packages:'' @ hex_EncodeToString (sha1_Sum
           (''1.2.3:sha:abc'' @ [CHR 0x00] @ ''f1'' @ [CHR 0x00] @ ''p1'' @ [CHR 0x00] @ ''h1'')) \<and>
     GetPackagesLayerImageName w p roles
       = ''acme-role-packages:210882475c3e0ecff720163bd6d3744bb49ae683'' \<and>
     GetPackagesLayerImageName w p roles' \<noteq> GetPackagesLayerImageName w p roles"
proof -
  have 1: "GetPackagesLayerImageName w p roles
       = ''acme-role-packages:210882475c3e0ecff720163bd6d3744bb49ae683''"
    using pkgMap_single [OF roles] by (intro image_name_h1 order name hex p) simp_all
  have 2: "GetPackagesLayerImageName w p roles'
       = ''acme-role-packages:81381703b679f374843a4dfe179cff2e16a38880''"
    using pkgMap_single [OF roles'] by (intro image_name_h2 order name hex p) simp_all
  show ?thesis unfolding 1 2 digest_h1 by simp
qed

lemma sanitize_A: "SanitizeDockerName worldA s = s"
  by (simp add: worldA_def)

theorem GetPackagesLayerImageName_example_witness:
  "(\<forall>m. mset (range_order worldA m) = mset m) \<and>
   SanitizeDockerName worldA ''acme-role-packages'' = ''acme-role-packages'' \<and>
   repository builderA = ''acme'' \<and> fissileVersion builderA = ''1.2.3'' \<and>
   stemcellImageID builderA = ''sha:abc'' \<and>
   allPackages rolesH1 = [\<lparr>Name = ''p1'', Fingerprint = ''f1'', SHA1 = ''h1''\<rparr>] \<and>
   allPackages rolesH2 = [\<lparr>Name = ''p1'', Fingerprint = ''f1'', SHA1 = ''h2''\<rparr>] \<and>
   GetPackagesLayerImageName worldA builderA rolesH1
     = ''acme-role-packages:210882475c3e0ecff720163bd6d3744bb49ae683'' \<and>
   GetPackagesLayerImageName worldA builderA rolesH2 \<noteq> GetPackagesLayerImageName worldA builderA rolesH1"
proof -
  have p: "repository builderA = ''acme''" "fissileVersion builderA = ''1.2.3''"
    "stemcellImageID builderA = ''sha:abc''"
    by (simp_all add: builderA_def)
  have r1: "allPackages rolesH1 = [\<lparr>Name = ''p1'', Fingerprint = ''f1'', SHA1 = ''h1''\<rparr>]"
    by (simp add: allPackages_def rolesH1_def)
  have r2: "allPackages rolesH2 = [\<lparr>Name = ''p1'', Fingerprint = ''f1'', SHA1 = ''h2''\<rparr>]"
    by (simp add: allPackages_def rolesH2_def)
  note example = GetPackagesLayerImageName_example [of worldA builderA rolesH1 rolesH2,
      OF range_order_A sanitize_A sanitize_A p r1 r2]
  from example have v: "GetPackagesLayerImageName worldA builderA rolesH1
     = ''acme-role-packages:210882475c3e0ecff720163bd6d3744bb49ae683''"
    by (rule conjunct2 [THEN conjunct1])
  from example have d: "GetPackagesLayerImageName worldA builderA rolesH2
     \<noteq> GetPackagesLayerImageName worldA builderA rolesH1"
    by (rule conjunct2 [THEN conjunct2])
  from range_order_A sanitize_A p r1 r2 v d show ?thesis
    by blast
qed

theorem GetPackagesLayerImageName_permutation_witness:
  "(\<forall>m. mset (range_order worldA m) = mset m) \<and>
   (\<forall>m. mset (range_order worldB m) = mset m) \<and>
   SanitizeDockerName worldB = SanitizeDockerName worldA \<and>
   mset (allPackages rolesC') = mset (allPackages rolesC) \<and>
   allPackages rolesC' \<noteq> allPackages rolesC \<and>
   GetPackagesLayerImageName worldB builderA rolesC' = GetPackagesLayerImageName worldA builderA rolesC"
proof -
  have s: "SanitizeDockerName worldB = SanitizeDockerName worldA" by (simp add: worldB_def)
  have m: "mset (allPackages rolesC') = mset (allPackages rolesC)"
    by (simp add: allPackages_def rolesC_def rolesC'_def)
  have n: "allPackages rolesC' \<noteq> allPackages rolesC"
    by (simp add: allPackages_def rolesC_def rolesC'_def)
  have f: "\<forall>a\<in>set (allPackages rolesC). \<forall>b\<in>set (allPackages rolesC).
        Fingerprint a = Fingerprint b \<longrightarrow> a = b"
    by (simp add: allPackages_def rolesC_def)
  from GetPackagesLayerImageName_permutation [of worldA worldB rolesC' rolesC builderA,
      OF range_order_A range_order_B s m f]
  show ?thesis
    by (simp add: range_order_A range_order_B s m n)
qed

lemma pkgMap_rolesA: "pkgMap rolesA = [(''f1'', \<lparr>Name = ''p1'', Fingerprint = ''f1'', SHA1 = ''h2''\<rparr>)]"
  by (simp add: pkgMap_def rolesA_def)

lemma pkgMap_rev_rolesA: "pkgMap (rev rolesA) = [(''f1'', \<lparr>Name = ''p1'', Fingerprint = ''f1'', SHA1 = ''h1''\<rparr>)]"
  by (simp add: pkgMap_def rolesA_def)

lemma builderA_fields:
  "repository builderA = ''acme''" "fissileVersion builderA = ''1.2.3''"
  "stemcellImageID builderA = ''sha:abc''"
  by (simp_all add: builderA_def)

text \<open>
  C1 as stated fails when two packages share a fingerprint and differ in their hash:
  the one met last is hashed, so reversing the roles changes the reference.
\<close>

theorem GetPackagesLayerImageName_permutation_counterexample:
  "mset (allPackages (rev rolesA)) = mset (allPackages rolesA) \<and>
   GetPackagesLayerImageName worldA builderA rolesA
     = ''acme-role-packages:81381703b679f374843a4dfe179cff2e16a38880'' \<and>
   GetPackagesLayerImageName worldA builderA (rev rolesA)
     = ''acme-role-packages:210882475c3e0ecff720163bd6d3744bb49ae683''"
proof -
  have 1: "mset (allPackages (rev rolesA)) = mset (allPackages rolesA)"
    by (simp add: allPackages_def rolesA_def)
  have 2: "GetPackagesLayerImageName worldA builderA rolesA
     = ''acme-role-packages:81381703b679f374843a4dfe179cff2e16a38880''"
    by (rule image_name_h2 [OF range_order_A sanitize_A sanitize_A builderA_fields pkgMap_rolesA])
  have 3: "GetPackagesLayerImageName worldA builderA (rev rolesA)
     = ''acme-role-packages:210882475c3e0ecff720163bd6d3744bb49ae683''"
    by (rule image_name_h1 [OF range_order_A sanitize_A sanitize_A builderA_fields pkgMap_rev_rolesA])
  from 1 2 3 show ?thesis by blast
qed

theorem GetPackagesLayerImageName_last_occurrence_witness:
  "(\<forall>m. mset (range_order worldA m) = mset m) \<and>
   allPackages rolesA = [\<lparr>Name = ''p1'', Fingerprint = ''f1'', SHA1 = ''h1''\<rparr>,
                         \<lparr>Name = ''p1'', Fingerprint = ''f1'', SHA1 = ''h2''\<rparr>] \<and>
   sortedPackages worldA rolesA = [\<lparr>Name = ''p1'', Fingerprint = ''f1'', SHA1 = ''h2''\<rparr>] \<and>
   collectPackages rolesA = [\<lparr>Name = ''p1'', Fingerprint = ''f1'', SHA1 = ''h1''\<rparr>] \<and>
   GetPackagesLayerImageName worldA builderA rolesA
     = ''acme-role-packages:'' @ hex_EncodeToString (sha1_Sum
         (''1.2.3:sha:abc'' @ [CHR 0x00] @ ''f1'' @ [CHR 0x00] @ ''p1'' @ [CHR 0x00] @ ''h2'')) \<and>
   GetPackagesLayerImageName worldA builderA rolesA
     = ''acme-role-packages:81381703b679f374843a4dfe179cff2e16a38880'' \<and>
   GetPackagesLayerImageName worldA builderA rolesA
     \<noteq> ''acme-role-packages:210882475c3e0ecff720163bd6d3744bb49ae683''"
proof -
  have a: "allPackages rolesA = [\<lparr>Name = ''p1'', Fingerprint = ''f1'', SHA1 = ''h1''\<rparr>,
                         \<lparr>Name = ''p1'', Fingerprint = ''f1'', SHA1 = ''h2''\<rparr>]"
    by (simp add: allPackages_def rolesA_def)
  have s: "sortedPackages worldA rolesA = [\<lparr>Name = ''p1'', Fingerprint = ''f1'', SHA1 = ''h2''\<rparr>]"
    by (rule sortedPackages_single [OF range_order_A pkgMap_rolesA])
  note last = GetPackagesLayerImageName_last_occurrence [of worldA builderA rolesA, OF range_order_A]
  from last have "GetPackagesLayerImageName worldA builderA rolesA =
       SanitizeDockerName worldA (repository builderA @ ''-role-packages'') @ '':''
         @ SanitizeDockerName worldA (hex_EncodeToString (sha1_Sum
             (fissileVersion builderA @ '':'' @ stemcellImageID builderA
                @ concat (map (\<lambda>pkg. [CHR 0x00] @ Fingerprint pkg @ [CHR 0x00] @ Name pkg
                                       @ [CHR 0x00] @ SHA1 pkg)
                            (sortedPackages worldA rolesA)))))"
    by (rule conjunct1)
  then have e: "GetPackagesLayerImageName worldA builderA rolesA
     = ''acme-role-packages:'' @ hex_EncodeToString (sha1_Sum
         (''1.2.3:sha:abc'' @ [CHR 0x00] @ ''f1'' @ [CHR 0x00] @ ''p1'' @ [CHR 0x00] @ ''h2''))"
    by (simp add: s sanitize_A builderA_fields)
  have v: "GetPackagesLayerImageName worldA builderA rolesA
     = ''acme-role-packages:81381703b679f374843a4dfe179cff2e16a38880''"
    unfolding e digest_h2 by simp
  have n: "GetPackagesLayerImageName worldA builderA rolesA
     \<noteq> ''acme-role-packages:210882475c3e0ecff720163bd6d3744bb49ae683''"
    unfolding v by simp
  from range_order_A a s collect_rolesA e v n show ?thesis
    by blast
qed

end
